theory Spec2Isabelle
  imports Main
begin

section \<open>JavaScript values seen by the SDK\<close>

text \<open>
  The model follows \<open>src/SDK.ts\<close> (class \<open>SDK\<close>). Response bodies are typed
  \<open>any\<close> in the source; the model distinguishes what the code distinguishes: a nullish
  body (\<open>undefined\<close>, \<open>null\<close>), another falsy primitive (the empty string axios
  delivers for an empty body), and an object with its own enumerable keys in insertion
  order. Truthy primitives are excluded by the declared result types.
\<close>

datatype jsval =
  JUndefined | JStr string | JNum int | JBool bool | JObj "(string \<times> jsval) list"

fun jsTruthy :: "jsval \<Rightarrow> bool" where
  "jsTruthy JUndefined = False"
| "jsTruthy (JStr s) = (s \<noteq> [])"
| "jsTruthy (JNum n) = (n \<noteq> 0)"
| "jsTruthy (JBool b) = b"
| "jsTruthy (JObj kvs) = True"

fun optJs :: "string option \<Rightarrow> jsval" where
  "optJs None = JUndefined"
| "optJs (Some s) = JStr s"

datatype body = Nullish | FalsyPrimitive | Object "(string \<times> jsval) list"

type_synonym header_map = "string \<rightharpoonup> string"

record response =
  status :: nat
  data :: body
  headers :: "header_map option"

text \<open>An error object as the \<open>catch\<close> blocks inspect it: \<open>error.toString()\<close>,
  \<open>error.code\<close>, \<open>error.response?.status\<close> and \<open>error.response?.headers\<close>.\<close>

record js_error =
  errName :: string
  errMessage :: string
  errCode :: "string option"
  errStatus :: "nat option"
  errHeaders :: "header_map option"

text \<open>\<open>Error.prototype.toString\<close>.\<close>

definition toString :: "js_error \<Rightarrow> string" where
  "toString e =
     (if errName e = [] then errMessage e
      else if errMessage e = [] then errName e
      else errName e @ '': '' @ errMessage e)"

text \<open>\<open>new Error(msg)\<close>.\<close>

definition newError :: "string \<Rightarrow> js_error" where
  "newError msg =
     \<lparr>errName = ''Error'', errMessage = msg, errCode = None, errStatus = None,
      errHeaders = None\<rparr>"

text \<open>The \<open>TypeError\<close> of \<open>Object.keys(undefined)\<close> and of a property access on a
  nullish value.\<close>

definition typeError :: "string \<Rightarrow> js_error" where
  "typeError msg =
     \<lparr>errName = ''TypeError'', errMessage = msg, errCode = None, errStatus = None,
      errHeaders = None\<rparr>"

text \<open>Truthiness of an optional string (\<open>undefined\<close> and \<open>""\<close> are falsy).\<close>

fun truthy :: "string option \<Rightarrow> bool" where
  "truthy None = False"
| "truthy (Some s) = (s \<noteq> [])"

text \<open>\<open>String.prototype.toLowerCase\<close> on ASCII header names.\<close>

definition toLowerCaseChar :: "char \<Rightarrow> char" where
  "toLowerCaseChar c =
     (case map_of (zip ''ABCDEFGHIJKLMNOPQRSTUVWXYZ'' ''abcdefghijklmnopqrstuvwxyz'') c of
        None \<Rightarrow> c | Some l \<Rightarrow> l)"

definition toLowerCase :: "string \<Rightarrow> string" where
  "toLowerCase s = map toLowerCaseChar s"

text \<open>\<open>String.prototype.substring(a, b)\<close> (the arguments are swapped when \<open>a > b\<close>).\<close>

definition substring :: "string \<Rightarrow> nat \<Rightarrow> nat \<Rightarrow> string" where
  "substring s a b = take (max a b - min a b) (drop (min a b) s)"

text \<open>\<open>obj[key] = v\<close> on an object: an existing key keeps its place, a new key goes last.\<close>

fun setProp :: "string \<Rightarrow> jsval \<Rightarrow> (string \<times> jsval) list \<Rightarrow> (string \<times> jsval) list" where
  "setProp k v [] = [(k, v)]"
| "setProp k v ((k', v') # kvs) =
     (if k' = k then (k, v) # kvs else (k', v') # setProp k v kvs)"

section \<open>Promises\<close>

text \<open>What a promise is rejected with: an error object, or (in \<open>getChatToken\<close>) the
  response itself. A promise whose executor returns without calling \<open>resolve\<close> or
  \<open>reject\<close> stays \<open>Pending\<close>. Only the first call settles a promise.\<close>

datatype rejection = RejectedError js_error | RejectedResponse response

datatype 'a promise = Pending | Resolved 'a | Rejected rejection

fun resolve :: "'a \<Rightarrow> 'a promise \<Rightarrow> 'a promise" where
  "resolve v Pending = Resolved v"
| "resolve v p = p"

fun reject :: "rejection \<Rightarrow> 'a promise \<Rightarrow> 'a promise" where
  "reject e Pending = Rejected e"
| "reject e p = p"

section \<open>Imported modules that are not part of the sources\<close>

text \<open>
  \<open>SDK.ts\<close> imports constants and helpers whose files are not available
  (\<open>Constants\<close>, \<open>OmnichannelHTTPHeaders\<close>, \<open>SDKError\<close>, \<open>ChannelId\<close>,
  \<open>LiveChatVersion\<close>, \<open>Locales\<close>, \<open>waitTimeBetweenRetriesConfigs\<close>,
  \<open>isExpectedAxiosError\<close>, \<open>addOcUserAgentHeader\<close>) and reads \<open>window.document\<close>.
  They are parameters of the model.
\<close>

record externals =
  isExpectedAxiosError :: "js_error \<Rightarrow> string \<Rightarrow> bool"
  axiosTimeoutErrorCode :: string
  ClientHTTPTimeoutErrorName :: string
  ClientHTTPTimeoutErrorMessage :: string
  hdrOcSessionId :: string
  hdrAuthCodeNonce :: string
  hdrAuthenticatedUserToken :: string
  hdrCorrelationId :: string
  hdrRequestId :: string
  defaultHeaders :: header_map
  bypassCacheHeaders :: header_map
  addOcUserAgentHeader :: "string list option \<Rightarrow> header_map \<Rightarrow> header_map"
  channelIdValues :: "string list"
  requiredOmnichannelConfigurationParameters :: "string list"
  liveChatVersionV2 :: nat
  waitTimeBetweenRetriesConfigs :: "(string \<times> nat) list"
  defaultLocale :: string
  supportedLocales :: "string list"
  windowDocument :: bool
  sessionInitRetryHandler :: "js_error \<Rightarrow> bool \<Rightarrow> bool"

text \<open>Modelled from the spec: \<open>Constants.noContentStatusCode\<close> is not in the sources;
  the spec names the status of a reconnect request without content as HTTP 204.\<close>

definition noContentStatusCode :: nat where
  "noContentStatusCode = 204"

section \<open>The SDK configuration objects and their store\<close>

text \<open>
  An \<open>ISDKConfiguration\<close> object as a caller may pass it: every key may be absent
  (\<open>None\<close>). \<open>defaultRequestTimeout\<close> is present with the value \<open>undefined\<close> in the
  static default (\<open>Some None\<close>).
\<close>

record ISDKConfiguration =
  authCodeNonce :: "string option"
  getChatTokenRetryCount :: "nat option"
  getChatTokenTimeBetweenRetriesOnFailure :: "nat option"
  getChatTokenRetryOn429 :: "bool option"
  maxRequestRetriesOnFailure :: "nat option"
  defaultRequestTimeout :: "nat option option"
  requestTimeoutConfig :: "(string \<times> nat) list option"
  useUnauthReconnectIdSigQueryParam :: "bool option"
  waitTimeBetweenRetriesConfig :: "(string \<times> nat) list option"
  ocUserAgent :: "string list option"

text \<open>Configuration objects live in a store: \<open>this.configuration\<close> is a reference, and
  the static \<open>SDK.defaultConfiguration\<close> is one object, at a fixed address.\<close>

type_synonym heap = "nat \<Rightarrow> ISDKConfiguration"

definition defaultConfigurationRef :: nat where
  "defaultConfigurationRef = 0"

definition defaultRequestTimeoutConfig :: "(string \<times> nat) list" where
  "defaultRequestTimeoutConfig =
     [(''getChatConfig'', 120000), (''getLWIDetails'', 15000), (''getChatToken'', 15000),
      (''sessionInit'', 15000), (''sessionClose'', 15000), (''getReconnectableChats'', 15000),
      (''getReconnectAvailability'', 15000), (''submitPostChatResponse'', 15000),
      (''getSurveyInviteLink'', 15000), (''getChatTranscripts'', 30000),
      (''emailTranscript'', 5000), (''fetchDataMaskingInfo'', 5000),
      (''makeSecondaryChannelEventRequest'', 15000), (''getAgentAvailability'', 15000),
      (''sendTypingIndicator'', 5000), (''validateAuthChatRecordTimeout'', 15000)]"

text \<open>The static initialiser of \<open>SDK.defaultConfiguration\<close>; \<open>uuid\<close> is the value
  \<open>uuidv4()\<close> returned when the class was loaded.\<close>

definition defaultConfiguration :: "externals \<Rightarrow> string \<Rightarrow> ISDKConfiguration" where
  "defaultConfiguration X uuid =
     \<lparr>authCodeNonce = Some (substring uuid 0 8),
      getChatTokenRetryCount = Some 10,
      getChatTokenTimeBetweenRetriesOnFailure = Some 10000,
      getChatTokenRetryOn429 = Some True,
      maxRequestRetriesOnFailure = Some 5,
      defaultRequestTimeout = Some None,
      requestTimeoutConfig = Some defaultRequestTimeoutConfig,
      useUnauthReconnectIdSigQueryParam = Some False,
      waitTimeBetweenRetriesConfig = Some (waitTimeBetweenRetriesConfigs X),
      ocUserAgent = Some []\<rparr>"

definition classLoad :: "externals \<Rightarrow> string \<Rightarrow> heap \<Rightarrow> heap" where
  "classLoad X uuid h = h(defaultConfigurationRef := defaultConfiguration X uuid)"

text \<open>\<open>Object.keys(cfg).length === 0\<close>.\<close>

definition noKeys :: "ISDKConfiguration \<Rightarrow> bool" where
  "noKeys c =
     (authCodeNonce c = None \<and> getChatTokenRetryCount c = None \<and>
      getChatTokenTimeBetweenRetriesOnFailure c = None \<and> getChatTokenRetryOn429 c = None \<and>
      maxRequestRetriesOnFailure c = None \<and> defaultRequestTimeout c = None \<and>
      requestTimeoutConfig c = None \<and> useUnauthReconnectIdSigQueryParam c = None \<and>
      waitTimeBetweenRetriesConfig c = None \<and> ocUserAgent c = None)"

fun orDefault :: "'a option \<Rightarrow> 'a option \<Rightarrow> 'a option" where
  "orDefault None d = d"
| "orDefault (Some v) d = Some v"

text \<open>The loop \<open>for (const key of Object.keys(SDK.defaultConfiguration))\<close>: a key the
  object does not own is copied from the default.\<close>

definition fillMissingKeys :: "ISDKConfiguration \<Rightarrow> ISDKConfiguration \<Rightarrow> ISDKConfiguration" where
  "fillMissingKeys d c =
     \<lparr>authCodeNonce = orDefault (authCodeNonce c) (authCodeNonce d),
      getChatTokenRetryCount = orDefault (getChatTokenRetryCount c) (getChatTokenRetryCount d),
      getChatTokenTimeBetweenRetriesOnFailure =
        orDefault (getChatTokenTimeBetweenRetriesOnFailure c)
          (getChatTokenTimeBetweenRetriesOnFailure d),
      getChatTokenRetryOn429 = orDefault (getChatTokenRetryOn429 c) (getChatTokenRetryOn429 d),
      maxRequestRetriesOnFailure =
        orDefault (maxRequestRetriesOnFailure c) (maxRequestRetriesOnFailure d),
      defaultRequestTimeout = orDefault (defaultRequestTimeout c) (defaultRequestTimeout d),
      requestTimeoutConfig = orDefault (requestTimeoutConfig c) (requestTimeoutConfig d),
      useUnauthReconnectIdSigQueryParam =
        orDefault (useUnauthReconnectIdSigQueryParam c) (useUnauthReconnectIdSigQueryParam d),
      waitTimeBetweenRetriesConfig =
        orDefault (waitTimeBetweenRetriesConfig c) (waitTimeBetweenRetriesConfig d),
      ocUserAgent = orDefault (ocUserAgent c) (ocUserAgent d)\<rparr>"

text \<open>The loop over the keys of the default \<open>requestTimeoutConfig\<close>: endpoint timeouts
  the object does not own are added, in the default's order.\<close>

definition fillMissingTimeouts :: "(string \<times> nat) list \<Rightarrow> (string \<times> nat) list \<Rightarrow> (string \<times> nat) list" where
  "fillMissingTimeouts d c = c @ filter (\<lambda>kv. fst kv \<notin> set (map fst c)) d"

section \<open>The SDK instance and its constructor\<close>

record SDK =
  omnichannelConfiguration :: "(string \<times> string) list"
  configuration :: nat
  sessionId :: "string option"
  liveChatVersion :: jsval
  sdkOcUserAgent :: "string list option"

text \<open>The \<open>configuration\<close> argument of the constructor: omitted, a value that is not an
  object, or a reference to an object of the store.\<close>

datatype configuration_arg = Undefined | NonObject | ObjectAt nat

text \<open>The first statement of the constructor, with the default of the parameter: which
  object \<open>this.configuration\<close> refers to.\<close>

definition chooseConfiguration :: "heap \<Rightarrow> configuration_arg \<Rightarrow> nat" where
  "chooseConfiguration h arg =
     (case arg of
        Undefined \<Rightarrow> defaultConfigurationRef
      | NonObject \<Rightarrow> defaultConfigurationRef
      | ObjectAt a \<Rightarrow> if noKeys (h a) then defaultConfigurationRef else a)"

definition HTTPTimeOutErrorMessage :: "externals \<Rightarrow> string" where
  "HTTPTimeOutErrorMessage X =
     ClientHTTPTimeoutErrorName X @ '': '' @ ClientHTTPTimeoutErrorMessage X"

text \<open>The constructor. It writes to the configuration object before it validates the
  Omnichannel configuration, so the store is returned also when it throws.\<close>

definition SDK_constructor ::
  "externals \<Rightarrow> (string \<times> string) list \<Rightarrow> configuration_arg \<Rightarrow> heap \<Rightarrow> heap \<times> (js_error + SDK)" where
  "SDK_constructor X oc arg h =
     (let ref = chooseConfiguration h arg;
          d = h defaultConfigurationRef;
          c1 = fillMissingKeys d (h ref)
      in case requestTimeoutConfig d of
           None \<Rightarrow> (h(ref := c1), Inl (typeError ''Cannot convert undefined or null to object''))
         | Some dt \<Rightarrow>
            (case requestTimeoutConfig c1 of
               None \<Rightarrow> (h(ref := c1), Inl (typeError ''Cannot read properties of undefined''))
             | Some ct \<Rightarrow>
                (let c2 = c1\<lparr>requestTimeoutConfig := Some (fillMissingTimeouts dt ct)\<rparr>;
                     h' = h(ref := c2)
                 in if (case map_of oc ''channelId'' of
                          None \<Rightarrow> True | Some ch \<Rightarrow> ch \<notin> set (channelIdValues X))
                    then (h', Inl (newError ''Invalid channelId''))
                    else
                      (case find (\<lambda>k. k \<notin> set (map fst oc))
                              (requiredOmnichannelConfigurationParameters X) of
                         Some k \<Rightarrow>
                           (h', Inl (newError (''Missing '' @ [CHR 0x27] @ k @ [CHR 0x27] @
                                               '' in OmnichannelConfiguration'')))
                       | None \<Rightarrow>
                           (h', Inr \<lparr>omnichannelConfiguration = oc, configuration = ref,
                                     sessionId = None,
                                     liveChatVersion = JNum (int (liveChatVersionV2 X)),
                                     sdkOcUserAgent = ocUserAgent c2\<rparr>)))))"

section \<open>Session state: the nonce and the session id\<close>

text \<open>\<open>setAuthCodeNonce\<close>: a truthy \<open>authcodenonce\<close> response header replaces the nonce
  of the configuration object the instance refers to.\<close>

definition setAuthCodeNonce :: "SDK \<Rightarrow> header_map option \<Rightarrow> heap \<Rightarrow> heap" where
  "setAuthCodeNonce sdk hs h =
     (case hs of
        None \<Rightarrow> h
      | Some m \<Rightarrow>
         (if truthy (m ''authcodenonce'')
          then h(configuration sdk := (h (configuration sdk))\<lparr>authCodeNonce := m ''authcodenonce''\<rparr>)
          else h))"

text \<open>The session id taken from a response (in \<open>getChatToken\<close> and
  \<open>createConversation\<close>): \<open>if (headers) if (headers[ocSessionId.toLowerCase()]) ...\<close>.\<close>

definition setSessionId :: "externals \<Rightarrow> header_map option \<Rightarrow> SDK \<Rightarrow> SDK" where
  "setSessionId X hs sdk =
     (case hs of
        None \<Rightarrow> sdk
      | Some m \<Rightarrow>
         (if truthy (m (toLowerCase (hdrOcSessionId X)))
          then sdk\<lparr>sessionId := m (toLowerCase (hdrOcSessionId X))\<rparr>
          else sdk))"

text \<open>What a request reads: \<open>this.configuration.authCodeNonce\<close>.\<close>

definition readAuthCodeNonce :: "SDK \<Rightarrow> heap \<Rightarrow> string option" where
  "readAuthCodeNonce sdk h = authCodeNonce (h (configuration sdk))"

text \<open>The request headers every operation adds (\<open>addDefaultHeaders\<close> and its helpers).\<close>

definition setSessionIdHeader :: "externals \<Rightarrow> string option \<Rightarrow> header_map \<Rightarrow> header_map" where
  "setSessionIdHeader X sid hs = (if truthy sid then hs(hdrOcSessionId X := sid) else hs)"

definition setRequestIdHeader :: "externals \<Rightarrow> string option \<Rightarrow> header_map \<Rightarrow> header_map" where
  "setRequestIdHeader X rid hs = (if truthy rid then hs(hdrRequestId X := rid) else hs)"

definition setCorrelationIdInHeader :: "externals \<Rightarrow> string option \<Rightarrow> header_map \<Rightarrow> header_map" where
  "setCorrelationIdInHeader X cid hs = (if truthy cid then hs(hdrCorrelationId X := cid) else hs)"

definition addDefaultHeaders :: "externals \<Rightarrow> SDK \<Rightarrow> string option \<Rightarrow> header_map \<Rightarrow> header_map" where
  "addDefaultHeaders X sdk rid hs =
     setCorrelationIdInHeader X rid
       (addOcUserAgentHeader X (sdkOcUserAgent sdk) (setSessionIdHeader X (sessionId sdk) hs))"

text \<open>The authenticated-header injection shared by the operations:
  \<open>if (authenticatedUserToken) { headers[authenticatedUserToken] = ...;
  headers[authCodeNonce] = this.configuration.authCodeNonce }\<close>.\<close>

definition addAuthHeaders :: "externals \<Rightarrow> SDK \<Rightarrow> heap \<Rightarrow> string option \<Rightarrow> header_map \<Rightarrow> header_map" where
  "addAuthHeaders X sdk h token hs =
     (if truthy token
      then (hs(hdrAuthenticatedUserToken X := token))(hdrAuthCodeNonce X := readAuthCodeNonce sdk h)
      else hs)"

section \<open>The retry policy engine\<close>

text \<open>
  The engine is installed by \<open>axiosRetryHandler(axiosInstance, options)\<close>, a module that
  is not part of the sources; \<open>SDK.ts\<close> only builds its options. The definitions of this
  section follow sections 3, 4.1 and 4.2 of the specification.
\<close>

text \<open>Modelled from the spec: the \<open>RetryPolicy\<close> of section 3 (the options object of the
  missing \<open>axiosRetryHandler\<close>). The custom predicate receives the error of the attempt,
  as the predicates built in \<open>SDK.ts\<close> do.\<close>

record RetryPolicy =
  maxAttempts :: nat
  backoffMillis :: nat
  retryOn429 :: bool
  headerOverwrites :: "string list"
  shouldRetry :: "(js_error \<Rightarrow> bool) option"

text \<open>Modelled from the spec: the failure taxonomy of sections 3 and 7 (the classification
  made inside the missing \<open>axiosRetryHandler\<close>).\<close>

datatype FailureKind =
  Timeout | RetryableServerError | NonRetryableClientError | NetworkError | EmptyResponse

text \<open>Modelled from the spec: a classified failure (section 3), kept together with the
  error of the attempt, inside the missing \<open>axiosRetryHandler\<close>.\<close>

record Failure =
  kind :: FailureKind
  cause :: js_error

text \<open>Modelled from the spec: the \<open>AttemptContext\<close> of section 3 (state of the missing
  \<open>axiosRetryHandler\<close>).\<close>

record AttemptContext =
  attemptNumber :: nat
  startedAt :: nat
  lastFailure :: "Failure option"

text \<open>Modelled from the spec: the result of \<open>evaluate\<close> in section 4.1 (the missing
  \<open>axiosRetryHandler\<close>).\<close>

record Verdict =
  retry :: bool
  delayMillis :: nat
  headersToRefresh :: "string list"

text \<open>Modelled from the spec: the classification of a failed attempt of the missing
  \<open>axiosRetryHandler\<close>. A failure with a response is classified by its status: a
  retryable server error when it is 5xx, or 429 under a policy with \<open>retryOn429\<close>. A
  failure without a response is a timeout or a network error.\<close>

definition classify :: "externals \<Rightarrow> RetryPolicy \<Rightarrow> js_error \<Rightarrow> Failure" where
  "classify X p e =
     \<lparr>kind =
        (case errStatus e of
           Some s \<Rightarrow>
             if 500 \<le> s \<and> s < 600 then RetryableServerError
             else if s = 429 \<and> retryOn429 p then RetryableServerError
             else NonRetryableClientError
         | None \<Rightarrow>
             if isExpectedAxiosError X e (axiosTimeoutErrorCode X) then Timeout
             else NetworkError),
      cause = e\<rparr>"

text \<open>Modelled from the spec: the default classification of section 4.1 (part of the
  missing \<open>axiosRetryHandler\<close>).\<close>

fun defaultShouldRetry :: "FailureKind \<Rightarrow> bool" where
  "defaultShouldRetry Timeout = True"
| "defaultShouldRetry NetworkError = True"
| "defaultShouldRetry RetryableServerError = True"
| "defaultShouldRetry NonRetryableClientError = False"
| "defaultShouldRetry EmptyResponse = False"

text \<open>Modelled from the spec: the decision function \<open>evaluate\<close> of section 4.1 (the
  missing \<open>axiosRetryHandler\<close>): a hard ceiling on the attempt number, then the custom
  predicate where the policy has one, the default classification otherwise.\<close>

definition evaluate :: "AttemptContext \<Rightarrow> Failure \<Rightarrow> RetryPolicy \<Rightarrow> Verdict" where
  "evaluate attempt failure policy =
     \<lparr>retry =
        (attemptNumber attempt < maxAttempts policy \<and>
         (case shouldRetry policy of
            Some pr \<Rightarrow> pr (cause failure)
          | None \<Rightarrow> defaultShouldRetry (kind failure))),
      delayMillis = backoffMillis policy,
      headersToRefresh = headerOverwrites policy\<rparr>"

text \<open>The transport (axios and the server behind it) is outside the program: it answers
  attempt number \<open>i\<close>, sent with the given request headers, by a response or an error.\<close>

datatype transport_outcome = TResponse response | TError js_error

type_synonym transport = "nat \<Rightarrow> header_map \<Rightarrow> transport_outcome"

text \<open>Modelled from the spec: step 4 of section 4.2 (in the missing
  \<open>axiosRetryHandler\<close>): the headers to refresh are read again from the session state,
  the nonce where the request carries one, the session id where the instance has one.\<close>

fun refreshHeaders :: "externals \<Rightarrow> SDK \<Rightarrow> heap \<Rightarrow> string list \<Rightarrow> header_map \<Rightarrow> header_map" where
  "refreshHeaders X sdk h [] hs = hs"
| "refreshHeaders X sdk h (n # ns) hs =
     refreshHeaders X sdk h ns
       (if n = hdrAuthCodeNonce X \<and> hs n \<noteq> None then hs(n := readAuthCodeNonce sdk h)
        else if n = hdrOcSessionId X \<and> truthy (sessionId sdk) then hs(n := sessionId sdk)
        else hs)"

text \<open>Modelled from the spec: what the attempt loop of section 4.2 (the missing
  \<open>axiosRetryHandler\<close>) hands back: the last answer of the transport, the number of
  attempts dispatched and the store.\<close>

record DispatchResult =
  final :: transport_outcome
  dispatched :: nat
  heapAfter :: heap

text \<open>Modelled from the spec: the attempt loop of section 4.2, steps 2 to 4 (the missing
  \<open>axiosRetryHandler\<close>). A failed attempt's nonce is committed before the verdict. A
  response is handed to the operation, which commits its headers itself
  (\<open>setAuthCodeNonce\<close> in \<open>SDK.ts\<close>).\<close>

function attemptLoop ::
  "externals \<Rightarrow> SDK \<Rightarrow> RetryPolicy \<Rightarrow> transport \<Rightarrow> AttemptContext \<Rightarrow> header_map \<Rightarrow> heap \<Rightarrow> DispatchResult" where
  "attemptLoop X sdk p tr a hs h =
     (case tr (attemptNumber a) hs of
        TResponse r \<Rightarrow>
          \<lparr>final = TResponse r, dispatched = Suc (attemptNumber a), heapAfter = h\<rparr>
      | TError e \<Rightarrow>
          (if retry (evaluate a (classify X p e) p)
           then attemptLoop X sdk p tr
                  (a\<lparr>attemptNumber := Suc (attemptNumber a),
                     lastFailure := Some (classify X p e)\<rparr>)
                  (refreshHeaders X sdk (setAuthCodeNonce sdk (errHeaders e) h)
                     (headersToRefresh (evaluate a (classify X p e) p)) hs)
                  (setAuthCodeNonce sdk (errHeaders e) h)
           else \<lparr>final = TError e, dispatched = Suc (attemptNumber a),
                  heapAfter = setAuthCodeNonce sdk (errHeaders e) h\<rparr>))"
  by pat_completeness auto
termination
  by (relation "measure (\<lambda>(X, sdk, p, tr, a, hs, h). maxAttempts p - attemptNumber a)")
     (auto simp: evaluate_def)

declare attemptLoop.simps [simp del]

text \<open>Modelled from the spec: \<open>execute\<close> of section 4.2 (the call \<open>axiosInstance(options)\<close>
  under the missing \<open>axiosRetryHandler\<close>), started at attempt number 0.\<close>

definition execute ::
  "externals \<Rightarrow> SDK \<Rightarrow> RetryPolicy \<Rightarrow> transport \<Rightarrow> header_map \<Rightarrow> heap \<Rightarrow> DispatchResult" where
  "execute X sdk p tr hs h =
     attemptLoop X sdk p tr \<lparr>attemptNumber = 0, startedAt = 0, lastFailure = None\<rparr> hs h"

section \<open>The operations of \<open>SDK.ts\<close>\<close>

text \<open>
  URL, query parameters, telemetry and payload shaping are left out: they do not reach
  the outcome of a call. Several operations use the shared object
  \<open>Constants.defaultHeaders\<close> itself as their request headers and write to it; its
  content when the call starts is the parameter \<open>defaultHeaders\<close>. An operation is run
  against a transport and returns how its promise is settled, how many attempts were
  dispatched, and the state it leaves. The result is \<open>None\<close> when a value the operation
  passes to the retry engine is \<open>undefined\<close> (a configuration key or a wait time that
  is absent); the constructor fills every key of the configuration from the default.
\<close>

record 'a CallResult =
  settled :: "'a promise"
  attempts :: nat
  sdkAfter :: SDK
  storeAfter :: heap

text \<open>The options passed to \<open>axiosRetryHandler\<close> by \<open>getChatToken\<close>.\<close>

definition getChatToken_policy :: "externals \<Rightarrow> ISDKConfiguration \<Rightarrow> int \<Rightarrow> RetryPolicy option" where
  "getChatToken_policy X c currentRetryCount =
     (case (maxRequestRetriesOnFailure c, getChatTokenRetryOn429 c,
            waitTimeBetweenRetriesConfig c) of
        (Some m, Some r429, Some w) \<Rightarrow>
          (case map_of w ''getChatToken'' of
             Some ms \<Rightarrow>
               Some \<lparr>maxAttempts =
                       (if currentRetryCount > int m then nat currentRetryCount else m),
                     backoffMillis = ms,
                     retryOn429 = r429,
                     headerOverwrites = [hdrAuthCodeNonce X],
                     shouldRetry = None\<rparr>
           | None \<Rightarrow> None)
      | _ \<Rightarrow> None)"

text \<open>The options of the operations that pass only \<open>retries\<close>,
  \<open>waitTimeInMsBetweenRetries\<close> and, where \<open>overwrite\<close> holds, the nonce header
  (\<open>validateAuthChatRecord\<close>, \<open>getChatConfig\<close>, ...).\<close>

definition plain_policy ::
  "externals \<Rightarrow> ISDKConfiguration \<Rightarrow> string \<Rightarrow> bool \<Rightarrow> RetryPolicy option" where
  "plain_policy X c operation overwrite =
     (case (maxRequestRetriesOnFailure c, waitTimeBetweenRetriesConfig c) of
        (Some m, Some w) \<Rightarrow>
          (case map_of w operation of
             Some ms \<Rightarrow>
               Some \<lparr>maxAttempts = m, backoffMillis = ms, retryOn429 = False,
                     headerOverwrites = (if overwrite then [hdrAuthCodeNonce X] else []),
                     shouldRetry = None\<rparr>
           | None \<Rightarrow> None)
      | _ \<Rightarrow> None)"

text \<open>The options of \<open>sessionInit\<close> and \<open>createConversation\<close>: no \<open>retryOn429\<close> key,
  and the predicate \<open>(error) => sessionInitRetryHandler(error, retryOn429)\<close> with the
  local constant \<open>retryOn429 = true\<close>.\<close>

definition sessionInit_policy :: "externals \<Rightarrow> ISDKConfiguration \<Rightarrow> RetryPolicy option" where
  "sessionInit_policy X c =
     (case (maxRequestRetriesOnFailure c, waitTimeBetweenRetriesConfig c) of
        (Some m, Some w) \<Rightarrow>
          (case map_of w ''sessionInit'' of
             Some ms \<Rightarrow>
               Some \<lparr>maxAttempts = m, backoffMillis = ms, retryOn429 = False,
                     headerOverwrites = [hdrAuthCodeNonce X],
                     shouldRetry = Some (\<lambda>error. sessionInitRetryHandler X error True)\<rparr>
           | None \<Rightarrow> None)
      | _ \<Rightarrow> None)"

subsection \<open>\<open>getChatToken\<close>\<close>

record IGetChatTokenOptionalParams =
  reconnectId :: "string option"
  authenticatedUserToken :: "string option"

text \<open>\<open>if (!requestId) requestId = uuidv4()\<close>; \<open>fresh\<close> is the value \<open>uuidv4()\<close> would
  return.\<close>

definition requestIdOr :: "string option \<Rightarrow> string \<Rightarrow> string" where
  "requestIdOr requestId fresh =
     (case requestId of None \<Rightarrow> fresh | Some r \<Rightarrow> if r = [] then fresh else r)"

definition getChatToken_requestHeaders ::
  "externals \<Rightarrow> SDK \<Rightarrow> heap \<Rightarrow> string \<Rightarrow> IGetChatTokenOptionalParams \<Rightarrow> header_map" where
  "getChatToken_requestHeaders X sdk h rid params =
     addAuthHeaders X sdk h (authenticatedUserToken params)
       (addDefaultHeaders X sdk (Some rid) (defaultHeaders X))"

text \<open>The body of the \<open>try\<close> block after \<open>await axiosInstance(options)\<close>.\<close>

definition getChatToken_onResponse ::
  "externals \<Rightarrow> SDK \<Rightarrow> heap \<Rightarrow> string \<Rightarrow> IGetChatTokenOptionalParams \<Rightarrow> response \<Rightarrow>
   body promise \<times> SDK \<times> heap" where
  "getChatToken_onResponse X sdk h rid params r =
     (let h1 = setAuthCodeNonce sdk (headers r) h;
          sdk1 = setSessionId X (headers r) sdk
      in case data r of
           Object kvs \<Rightarrow>
             (if length kvs = 0
              then (reject (RejectedError (newError ''Empty data received from getChatToken''))
                      Pending, sdk1, h1)
              else (resolve (Object (setProp ''requestId'' (JStr rid) kvs)) Pending, sdk1, h1))
         | _ \<Rightarrow>
             (if truthy (reconnectId params) \<and> status r = noContentStatusCode
              then (reject (RejectedResponse r) Pending, sdk1, h1)
              else (Pending, sdk1, h1)))"

text \<open>The \<open>catch\<close> block shared by the operations wrapped in \<open>new Promise\<close>:
  \<open>if (isExpectedAxiosError(error, timeoutCode)) reject(new Error(...)); reject(error)\<close>.\<close>

definition rejectNormalized :: "externals \<Rightarrow> js_error \<Rightarrow> 'a promise" where
  "rejectNormalized X error =
     reject (RejectedError error)
       (if isExpectedAxiosError X error (axiosTimeoutErrorCode X)
        then reject (RejectedError (newError (HTTPTimeOutErrorMessage X))) Pending
        else Pending)"

definition getChatToken ::
  "externals \<Rightarrow> SDK \<Rightarrow> heap \<Rightarrow> string option \<Rightarrow> IGetChatTokenOptionalParams \<Rightarrow> int \<Rightarrow>
   string \<Rightarrow> transport \<Rightarrow> body CallResult option" where
  "getChatToken X sdk h requestId params currentRetryCount fresh tr =
     (if currentRetryCount < 0
      then Some \<lparr>settled = Rejected (RejectedError (newError ''Invalid currentRetryCount'')),
                 attempts = 0, sdkAfter = sdk, storeAfter = h\<rparr>
      else
        (let rid = requestIdOr requestId fresh;
             requestHeaders = getChatToken_requestHeaders X sdk h rid params
         in case getChatToken_policy X (h (configuration sdk)) currentRetryCount of
              None \<Rightarrow> None
            | Some p \<Rightarrow>
               (let d = execute X sdk p tr requestHeaders h
                in case final d of
                     TResponse r \<Rightarrow>
                       (case getChatToken_onResponse X sdk (heapAfter d) rid params r of
                          (pr, sdk1, h1) \<Rightarrow>
                            Some \<lparr>settled = pr, attempts = dispatched d, sdkAfter = sdk1,
                                  storeAfter = h1\<rparr>)
                   | TError e \<Rightarrow>
                       Some \<lparr>settled = rejectNormalized X e, attempts = dispatched d,
                             sdkAfter = sdk, storeAfter = heapAfter d\<rparr>)))"

subsection \<open>\<open>createConversation\<close>\<close>

record ISessionInitOptionalParams =
  sipReconnectId :: "string option"
  sipAuthenticatedUserToken :: "string option"
  sipLocale :: "string option"
  sipGetContext :: bool

text \<open>The string held by \<open>data.locale\<close> (the empty string when it is absent).\<close>

fun the_locale :: "string option \<Rightarrow> string" where
  "the_locale None = []"
| "the_locale (Some l) = l"

definition createConversation_requestHeaders ::
  "externals \<Rightarrow> SDK \<Rightarrow> heap \<Rightarrow> string option \<Rightarrow> ISessionInitOptionalParams \<Rightarrow> header_map" where
  "createConversation_requestHeaders X sdk h requestId params =
     setRequestIdHeader X requestId
       (addDefaultHeaders X sdk requestId
          (addAuthHeaders X sdk h (sipAuthenticatedUserToken params) (defaultHeaders X)))"

text \<open>The \<open>catch\<close> block of \<open>createConversation\<close> (an \<open>async\<close> function without
  \<open>new Promise\<close>): it throws, which rejects the promise of the call.\<close>

definition createConversation_catch :: "externals \<Rightarrow> js_error \<Rightarrow> 'a promise" where
  "createConversation_catch X error =
     (if isExpectedAxiosError X error (axiosTimeoutErrorCode X)
      then Rejected (RejectedError (newError (HTTPTimeOutErrorMessage X)))
      else Rejected (RejectedError error))"

text \<open>The \<open>try\<close> block after the \<open>await\<close>. \<open>Object.keys(data)\<close> throws a \<open>TypeError\<close>
  on a nullish body; every throw lands in the \<open>catch\<close> block.\<close>

definition createConversation_onResponse ::
  "externals \<Rightarrow> SDK \<Rightarrow> heap \<Rightarrow> string option \<Rightarrow> response \<Rightarrow> body promise \<times> SDK \<times> heap" where
  "createConversation_onResponse X sdk h requestId r =
     (let h1 = setAuthCodeNonce sdk (headers r) h;
          sdk1 = setSessionId X (headers r) sdk
      in case data r of
           Nullish \<Rightarrow>
             (createConversation_catch X
                (typeError ''Cannot convert undefined or null to object''), sdk1, h1)
         | FalsyPrimitive \<Rightarrow>
             (createConversation_catch X
                (newError ''Empty data received from getChatToken''), sdk1, h1)
         | Object kvs \<Rightarrow>
             (if length kvs = 0
              then (createConversation_catch X
                      (newError ''Empty data received from getChatToken''), sdk1, h1)
              else (Resolved (Object (setProp ''requestId'' (optJs requestId) kvs)),
                    sdk1, h1)))"

definition createConversation ::
  "externals \<Rightarrow> SDK \<Rightarrow> heap \<Rightarrow> string option \<Rightarrow> ISessionInitOptionalParams \<Rightarrow> transport \<Rightarrow>
   body CallResult option" where
  "createConversation X sdk h requestId params tr =
     (case sessionInit_policy X (h (configuration sdk)) of
        None \<Rightarrow> None
      | Some p \<Rightarrow>
         (let requestHeaders = createConversation_requestHeaders X sdk h requestId params;
              locale = (if truthy (sipLocale params) then the_locale (sipLocale params)
                        else defaultLocale X)
          in if sipGetContext params \<and> \<not> windowDocument X
             then Some \<lparr>settled = Rejected (RejectedError
                           (newError ''getContext is only supported on web browsers'')),
                        attempts = 0, sdkAfter = sdk, storeAfter = h\<rparr>
             else if locale \<noteq> [] \<and> locale \<notin> set (supportedLocales X)
             then Some \<lparr>settled = Rejected (RejectedError
                           (newError (''Unsupported locale: '' @ [CHR 0x27] @ locale @
                                      [CHR 0x27]))),
                        attempts = 0, sdkAfter = sdk, storeAfter = h\<rparr>
             else
               (let d = execute X sdk p tr requestHeaders h
                in case final d of
                     TResponse r \<Rightarrow>
                       (case createConversation_onResponse X sdk (heapAfter d) requestId r of
                          (pr, sdk1, h1) \<Rightarrow>
                            Some \<lparr>settled = pr, attempts = dispatched d, sdkAfter = sdk1,
                                  storeAfter = h1\<rparr>)
                   | TError e \<Rightarrow>
                       Some \<lparr>settled = createConversation_catch X e,
                             attempts = dispatched d, sdkAfter = sdk,
                             storeAfter = heapAfter d\<rparr>)))"

subsection \<open>\<open>validateAuthChatRecord\<close>\<close>

definition validateAuthChatRecord_onResponse ::
  "SDK \<Rightarrow> heap \<Rightarrow> response \<Rightarrow> body promise \<times> heap" where
  "validateAuthChatRecord_onResponse sdk h r =
     (let h1 = setAuthCodeNonce sdk (headers r) h
      in if (case data r of
               Object kvs \<Rightarrow> map_of kvs ''authChatExist'' = Some (JBool True)
             | _ \<Rightarrow> False)
         then (resolve (data r) Pending, h1)
         else (reject (RejectedError (newError
                 ''Validate Auth Chat Record Failed. Record is not found or request is not authorized''))
                 Pending, h1))"

text \<open>The \<open>catch\<close> block: the timeout rejection first, then the comparison of
  \<open>error.toString()\<close> kept for backward compatibility.\<close>

definition validateAuthChatRecord_catch :: "externals \<Rightarrow> js_error \<Rightarrow> body promise" where
  "validateAuthChatRecord_catch X error =
     (let p1 = (if isExpectedAxiosError X error (axiosTimeoutErrorCode X)
                then reject (RejectedError (newError (HTTPTimeOutErrorMessage X))) Pending
                else Pending)
      in if toString error = ''Error: Request failed with status code 404''
         then resolve (Object []) p1
         else reject (RejectedError error) p1)"

definition validateAuthChatRecord_requestHeaders ::
  "externals \<Rightarrow> SDK \<Rightarrow> heap \<Rightarrow> string option \<Rightarrow> string option \<Rightarrow> header_map" where
  "validateAuthChatRecord_requestHeaders X sdk h requestId token =
     addDefaultHeaders X sdk requestId (addAuthHeaders X sdk h token (defaultHeaders X))"

definition validateAuthChatRecord ::
  "externals \<Rightarrow> SDK \<Rightarrow> heap \<Rightarrow> string option \<Rightarrow> string option \<Rightarrow> transport \<Rightarrow>
   body CallResult option" where
  "validateAuthChatRecord X sdk h requestId token tr =
     (case plain_policy X (h (configuration sdk)) ''validateAuthChatRecord'' True of
        None \<Rightarrow> None
      | Some p \<Rightarrow>
         (let requestHeaders = validateAuthChatRecord_requestHeaders X sdk h requestId token;
              d = execute X sdk p tr requestHeaders h
          in case final d of
               TResponse r \<Rightarrow>
                 (case validateAuthChatRecord_onResponse sdk (heapAfter d) r of
                    (pr, h1) \<Rightarrow>
                      Some \<lparr>settled = pr, attempts = dispatched d, sdkAfter = sdk,
                            storeAfter = h1\<rparr>)
             | TError e \<Rightarrow>
                 Some \<lparr>settled = validateAuthChatRecord_catch X e, attempts = dispatched d,
                       sdkAfter = sdk, storeAfter = heapAfter d\<rparr>))"

subsection \<open>\<open>getChatConfig\<close>\<close>

text \<open>The \<open>try\<close> block after the \<open>await\<close>: a property access on a nullish body and an
  assignment to a property of a primitive throw a \<open>TypeError\<close> (module code is strict),
  which the \<open>catch\<close> block turns into \<open>Promise.reject(error)\<close>.\<close>

definition getChatConfig_onResponse :: "SDK \<Rightarrow> response \<Rightarrow> body promise \<times> SDK" where
  "getChatConfig_onResponse sdk r =
     (case data r of
        Nullish \<Rightarrow>
          (Rejected (RejectedError (typeError ''Cannot read properties of undefined'')), sdk)
      | FalsyPrimitive \<Rightarrow>
          (Rejected (RejectedError (typeError ''Cannot create property headers'')), sdk)
      | Object kvs \<Rightarrow>
          (let sdk1 = (case map_of kvs ''LiveChatVersion'' of
                         Some v \<Rightarrow> if jsTruthy v then sdk\<lparr>liveChatVersion := v\<rparr> else sdk
                       | None \<Rightarrow> sdk);
               dateHeader = (case headers r of
                               None \<Rightarrow> []
                             | Some m \<Rightarrow>
                                 (if truthy (m ''date'') then [(''date'', optJs (m ''date''))]
                                  else []))
           in (Resolved (Object (setProp ''headers'' (JObj dateHeader) kvs)), sdk1)))"

definition getChatConfig ::
  "externals \<Rightarrow> SDK \<Rightarrow> heap \<Rightarrow> string option \<Rightarrow> bool \<Rightarrow> string \<Rightarrow> transport \<Rightarrow>
   body CallResult option" where
  "getChatConfig X sdk h requestId bypassCache fresh tr =
     (let rid = requestIdOr requestId fresh
      in case plain_policy X (h (configuration sdk)) ''getChatConfig'' False of
           None \<Rightarrow> None
         | Some p \<Rightarrow>
            (let hs0 = addDefaultHeaders X sdk (Some rid) Map.empty;
                 requestHeaders = (if bypassCache then bypassCacheHeaders X ++ hs0 else hs0);
                 d = execute X sdk p tr requestHeaders h
             in case final d of
                  TResponse r \<Rightarrow>
                    (case getChatConfig_onResponse sdk r of
                       (pr, sdk1) \<Rightarrow>
                         Some \<lparr>settled = pr, attempts = dispatched d, sdkAfter = sdk1,
                               storeAfter = heapAfter d\<rparr>)
                | TError e \<Rightarrow>
                    Some \<lparr>settled = Rejected (RejectedError e), attempts = dispatched d,
                          sdkAfter = sdk, storeAfter = heapAfter d\<rparr>))"

section \<open>Vocabulary of the properties\<close>

text \<open>A failure is retryable under a policy when the policy's predicate accepts it or,
  without a predicate, the default classification retries it.\<close>

definition retryable :: "externals \<Rightarrow> RetryPolicy \<Rightarrow> js_error \<Rightarrow> bool" where
  "retryable X p e =
     (case shouldRetry p of
        Some pr \<Rightarrow> pr e
      | None \<Rightarrow> defaultShouldRetry (kind (classify X p e)))"

text \<open>Attempts number \<open>0\<close> to \<open>maxAttempts\<close> (that is \<open>maxAttempts + 1\<close> consecutive
  attempts) all fail with a retryable failure, whatever headers they are sent with.\<close>

definition allAttemptsFailRetryably :: "externals \<Rightarrow> RetryPolicy \<Rightarrow> transport \<Rightarrow> bool" where
  "allAttemptsFailRetryably X p tr =
     (\<forall>i hs. i \<le> maxAttempts p \<longrightarrow> (\<exists>e. tr i hs = TError e \<and> retryable X p e))"

text \<open>\<open>createConversation\<close> gets past its checks of \<open>getContext\<close> and of the locale.\<close>

definition passesValidation :: "externals \<Rightarrow> ISessionInitOptionalParams \<Rightarrow> bool" where
  "passesValidation X params =
     ((sipGetContext params \<longrightarrow> windowDocument X) \<and>
      (let locale = (if truthy (sipLocale params) then the_locale (sipLocale params)
                     else defaultLocale X)
       in locale = [] \<or> locale \<in> set (supportedLocales X)))"

text \<open>A body that is falsy: nullish, or a falsy primitive such as the empty string.\<close>

fun falsyBody :: "body \<Rightarrow> bool" where
  "falsyBody Nullish = True"
| "falsyBody FalsyPrimitive = True"
| "falsyBody (Object kvs) = False"

text \<open>The first attempt is answered by the response \<open>r\<close>, or fails with the error
  \<open>e\<close>, whatever headers it is sent with.\<close>

definition firstAnswer :: "transport \<Rightarrow> response \<Rightarrow> bool" where
  "firstAnswer tr r = (\<forall>hs. tr 0 hs = TResponse r)"

definition firstFailure :: "transport \<Rightarrow> js_error \<Rightarrow> bool" where
  "firstFailure tr e = (\<forall>hs. tr 0 hs = TError e)"


text \<open>The nonce the constructor argument brings with it: the \<open>authCodeNonce\<close> of the
  configuration object passed, if one is passed and has that key.\<close>

fun suppliedNonce :: "heap \<Rightarrow> configuration_arg \<Rightarrow> string option" where
  "suppliedNonce h Undefined = None"
| "suppliedNonce h NonObject = None"
| "suppliedNonce h (ObjectAt a) = authCodeNonce (h a)"

text \<open>The nonce of the instance the constructor returns, if it returns one.\<close>

definition nonceAfterConstruction ::
  "externals \<Rightarrow> (string \<times> string) list \<Rightarrow> configuration_arg \<Rightarrow> heap \<Rightarrow> string option option" where
  "nonceAfterConstruction X oc arg h =
     (case SDK_constructor X oc arg h of
        (h', Inr sdk) \<Rightarrow> Some (readAuthCodeNonce sdk h')
      | (h', Inl e) \<Rightarrow> None)"

section \<open>Sample values\<close>

text \<open>Concrete values on which the properties below are exercised.\<close>

definition sampleExternals :: externals where
  "sampleExternals =
     \<lparr>isExpectedAxiosError = (\<lambda>e c. errCode e = Some c),
      axiosTimeoutErrorCode = ''ECONNABORTED'',
      ClientHTTPTimeoutErrorName = ''ClientHTTPTimeoutError'',
      ClientHTTPTimeoutErrorMessage = ''Server took too long to respond'',
      hdrOcSessionId = ''oc-sessionid'',
      hdrAuthCodeNonce = ''AuthCodeNonce'',
      hdrAuthenticatedUserToken = ''AuthenticatedUserToken'',
      hdrCorrelationId = ''Correlation-Id'',
      hdrRequestId = ''RequestId'',
      defaultHeaders = [''Content-Type'' \<mapsto> ''application/json''],
      bypassCacheHeaders = [''Cache-Control'' \<mapsto> ''no-cache''],
      addOcUserAgentHeader = (\<lambda>ua hs. hs),
      channelIdValues = [''lcw''],
      requiredOmnichannelConfigurationParameters = [''orgUrl'', ''orgId'', ''widgetId''],
      liveChatVersionV2 = 2,
      waitTimeBetweenRetriesConfigs =
        [(''getChatConfig'', 1000), (''getChatToken'', 1000), (''sessionInit'', 1000),
         (''validateAuthChatRecord'', 1000)],
      defaultLocale = ''en-us'',
      supportedLocales = [''en-us'', ''fr-fr''],
      windowDocument = True,
      sessionInitRetryHandler =
        (\<lambda>e r429. case errStatus e of None \<Rightarrow> True | Some s \<Rightarrow> s = 429 \<and> r429)\<rparr>"

definition sampleUuid :: string where
  "sampleUuid = ''123e4567-e89b-42d3-a456-426614174000''"

definition sampleOmnichannelConfiguration :: "(string \<times> string) list" where
  "sampleOmnichannelConfiguration =
     [(''orgUrl'', ''https://org.example''), (''orgId'', ''o1''), (''widgetId'', ''w1''),
      (''channelId'', ''lcw'')]"

definition emptyConfiguration :: ISDKConfiguration where
  "emptyConfiguration =
     \<lparr>authCodeNonce = None, getChatTokenRetryCount = None,
      getChatTokenTimeBetweenRetriesOnFailure = None, getChatTokenRetryOn429 = None,
      maxRequestRetriesOnFailure = None, defaultRequestTimeout = None,
      requestTimeoutConfig = None, useUnauthReconnectIdSigQueryParam = None,
      waitTimeBetweenRetriesConfig = None, ocUserAgent = None\<rparr>"

text \<open>The store after the class is loaded; every other cell holds an object without keys.\<close>

definition sampleStore :: heap where
  "sampleStore = classLoad sampleExternals sampleUuid (\<lambda>a. emptyConfiguration)"

text \<open>The instance \<open>new SDK(omnichannelConfiguration)\<close> on that store.\<close>

definition sampleSDK :: SDK where
  "sampleSDK =
     \<lparr>omnichannelConfiguration = sampleOmnichannelConfiguration,
      configuration = defaultConfigurationRef, sessionId = None,
      liveChatVersion = JNum 2, sdkOcUserAgent = Some []\<rparr>"

definition statusError :: "nat \<Rightarrow> js_error" where
  "statusError s =
     \<lparr>errName = ''AxiosError'', errMessage = ''Request failed'',
      errCode = Some ''ERR_BAD_RESPONSE'', errStatus = Some s, errHeaders = None\<rparr>"

definition timeoutError :: js_error where
  "timeoutError =
     \<lparr>errName = ''AxiosError'', errMessage = ''timeout of 15000ms exceeded'',
      errCode = Some ''ECONNABORTED'', errStatus = None, errHeaders = None\<rparr>"

text \<open>A transport that fails every attempt with the same error, and one that answers
  every attempt with the same response.\<close>

definition alwaysFails :: "js_error \<Rightarrow> transport" where
  "alwaysFails e = (\<lambda>i hs. TError e)"

definition answers :: "response \<Rightarrow> transport" where
  "answers r = (\<lambda>i hs. TResponse r)"

definition samplePolicy :: RetryPolicy where
  "samplePolicy =
     \<lparr>maxAttempts = 2, backoffMillis = 10, retryOn429 = True, headerOverwrites = [],
      shouldRetry = None\<rparr>"

definition sampleParams :: IGetChatTokenOptionalParams where
  "sampleParams = \<lparr>reconnectId = None, authenticatedUserToken = Some ''jwt''\<rparr>"

definition notFoundAxiosError :: js_error where
  "notFoundAxiosError =
     \<lparr>errName = ''AxiosError'', errMessage = ''Request failed with status code 404'',
      errCode = Some ''ERR_BAD_REQUEST'', errStatus = Some 404, errHeaders = None\<rparr>"

definition noContentResponse :: response where
  "noContentResponse = \<lparr>status = 204, data = FalsyPrimitive, headers = None\<rparr>"

definition emptyBodyResponse :: response where
  "emptyBodyResponse = \<lparr>status = 200, data = FalsyPrimitive, headers = None\<rparr>"

definition emptyObjectResponse :: response where
  "emptyObjectResponse = \<lparr>status = 200, data = Object [], headers = None\<rparr>"

definition reconnectParams :: IGetChatTokenOptionalParams where
  "reconnectParams = \<lparr>reconnectId = Some ''rc1'', authenticatedUserToken = None\<rparr>"

definition sampleSessionParams :: ISessionInitOptionalParams where
  "sampleSessionParams =
     \<lparr>sipReconnectId = None, sipAuthenticatedUserToken = None, sipLocale = None,
      sipGetContext = False\<rparr>"

definition sampleTokenPolicy :: RetryPolicy where
  "sampleTokenPolicy =
     \<lparr>maxAttempts = 5, backoffMillis = 1000, retryOn429 = True,
      headerOverwrites = [''AuthCodeNonce''], shouldRetry = None\<rparr>"

definition samplePlainPolicy :: "bool \<Rightarrow> RetryPolicy" where
  "samplePlainPolicy overwrite =
     \<lparr>maxAttempts = 5, backoffMillis = 1000, retryOn429 = False,
      headerOverwrites = (if overwrite then [''AuthCodeNonce''] else []), shouldRetry = None\<rparr>"

definition otherOmnichannelConfiguration :: "(string \<times> string) list" where
  "otherOmnichannelConfiguration =
     [(''orgUrl'', ''https://org.example''), (''orgId'', ''o1''), (''widgetId'', ''w2''),
      (''channelId'', ''lcw'')]"


text \<open>An instance whose own configuration object switches \<open>getChatTokenRetryOn429\<close> off.\<close>

definition configOffStore :: heap where
  "configOffStore =
     sampleStore(1 := (defaultConfiguration sampleExternals sampleUuid)
                        \<lparr>getChatTokenRetryOn429 := Some False\<rparr>)"

definition configOffSDK :: SDK where
  "configOffSDK = sampleSDK\<lparr>configuration := 1\<rparr>"

text \<open>A configuration object that brings its own nonce.\<close>

definition callerConfiguration :: ISDKConfiguration where
  "callerConfiguration = emptyConfiguration\<lparr>authCodeNonce := Some ''callerNonce''\<rparr>"

section \<open>The store and the constructor\<close>

lemma orDefault_same: "orDefault x x = x"
  by (cases x) simp_all

lemma fillMissingKeys_same: "fillMissingKeys c c = c"
  by (simp add: fillMissingKeys_def orDefault_same)

lemma fillMissingTimeouts_same: "fillMissingTimeouts c c = c"
  by (simp add: fillMissingTimeouts_def)

lemma authCodeNonce_fillMissingKeys:
  "authCodeNonce (fillMissingKeys d c) = orDefault (authCodeNonce c) (authCodeNonce d)"
  by (simp add: fillMissingKeys_def)

lemma SDK_constructor_Inr:
  assumes "SDK_constructor X oc arg h = (h', Inr sdk)"
  shows "configuration sdk = chooseConfiguration h arg"
    and "authCodeNonce (h' (chooseConfiguration h arg)) =
          orDefault (authCodeNonce (h (chooseConfiguration h arg)))
            (authCodeNonce (h defaultConfigurationRef))"
    and "\<And>a. a \<noteq> chooseConfiguration h arg \<Longrightarrow> h' a = h a"
  using assms
  by (auto simp: SDK_constructor_def Let_def authCodeNonce_fillMissingKeys
      split: option.splits if_splits)



lemma substring_prefix: "substring s 0 n = take n s"
  by (simp add: substring_def)

lemma addAuthHeaders_nonce:
  "truthy token \<Longrightarrow>
   addAuthHeaders X sdk h token hs (hdrAuthCodeNonce X) = readAuthCodeNonce sdk h"
  by (simp add: addAuthHeaders_def)



section \<open>The attempt loop\<close>

lemma cause_classify [simp]: "cause (classify X p e) = e"
  by (simp add: classify_def)

lemma retry_evaluate:
  "retry (evaluate a (classify X p e) p) = (attemptNumber a < maxAttempts p \<and> retryable X p e)"
  by (simp add: evaluate_def retryable_def split: option.splits)

lemma attemptLoop_response:
  "tr (attemptNumber a) hs = TResponse r \<Longrightarrow>
   attemptLoop X sdk p tr a hs h =
     \<lparr>final = TResponse r, dispatched = Suc (attemptNumber a), heapAfter = h\<rparr>"
  by (simp add: attemptLoop.simps)

lemma attemptLoop_stop:
  "tr (attemptNumber a) hs = TError e \<Longrightarrow> \<not> retry (evaluate a (classify X p e) p) \<Longrightarrow>
   attemptLoop X sdk p tr a hs h =
     \<lparr>final = TError e, dispatched = Suc (attemptNumber a),
      heapAfter = setAuthCodeNonce sdk (errHeaders e) h\<rparr>"
  by (simp add: attemptLoop.simps)

lemma attemptLoop_all_fail:
  assumes "allAttemptsFailRetryably X p tr"
  shows "attemptNumber a \<le> maxAttempts p \<Longrightarrow>
         dispatched (attemptLoop X sdk p tr a hs h) = Suc (maxAttempts p) \<and>
         (\<exists>e. final (attemptLoop X sdk p tr a hs h) = TError e \<and> retryable X p e)"
proof (induction "maxAttempts p - attemptNumber a" arbitrary: a hs h)
  case 0
  then have eq: "attemptNumber a = maxAttempts p" by simp
  from assms obtain e where e: "tr (attemptNumber a) hs = TError e" "retryable X p e"
    unfolding allAttemptsFailRetryably_def using eq by (metis order_refl)
  have "\<not> retry (evaluate a (classify X p e) p)"
    by (simp add: retry_evaluate eq)
  with e show ?case
    by (simp add: attemptLoop_stop eq)
next
  case (Suc k)
  then have lt: "attemptNumber a < maxAttempts p" by simp
  from assms obtain e where e: "tr (attemptNumber a) hs = TError e" "retryable X p e"
    unfolding allAttemptsFailRetryably_def using lt by (metis less_imp_le)
  have r: "retry (evaluate a (classify X p e) p)"
    by (simp add: retry_evaluate lt e)
  let ?a = "a\<lparr>attemptNumber := Suc (attemptNumber a), lastFailure := Some (classify X p e)\<rparr>"
  have k: "k = maxAttempts p - attemptNumber ?a" using Suc.hyps(2) by simp
  have le: "attemptNumber ?a \<le> maxAttempts p" using lt by simp
  show ?case
    using Suc.hyps(1)[OF k le] e r
    by (subst attemptLoop.simps, subst (2) attemptLoop.simps) simp
qed

lemma execute_all_fail:
  assumes "allAttemptsFailRetryably X p tr"
  shows "dispatched (execute X sdk p tr hs h) = Suc (maxAttempts p) \<and>
         (\<exists>e. final (execute X sdk p tr hs h) = TError e \<and> retryable X p e)"
  unfolding execute_def using attemptLoop_all_fail[OF assms] by simp

lemma execute_response:
  "tr 0 hs = TResponse r \<Longrightarrow>
   execute X sdk p tr hs h = \<lparr>final = TResponse r, dispatched = Suc 0, heapAfter = h\<rparr>"
  by (simp add: execute_def attemptLoop_response)

lemma execute_stop:
  "tr 0 hs = TError e \<Longrightarrow> \<not> retryable X p e \<Longrightarrow>
   execute X sdk p tr hs h =
     \<lparr>final = TError e, dispatched = Suc 0, heapAfter = setAuthCodeNonce sdk (errHeaders e) h\<rparr>"
  by (simp add: execute_def attemptLoop_stop retry_evaluate)

lemma rejectNormalized_rejected: "\<exists>e'. (rejectNormalized X e :: 'a promise) = Rejected (RejectedError e')"
  by (simp add: rejectNormalized_def)


lemma attemptLoop_final_error:
  "final (attemptLoop X sdk p tr a hs h) = TError e \<Longrightarrow> \<exists>i hs'. tr i hs' = TError e"
proof (induction X sdk p tr a hs h rule: attemptLoop.induct)
  case (1 X sdk p tr a hs h)
  show ?case
  proof (cases "tr (attemptNumber a) hs")
    case (TResponse r)
    with "1.prems" show ?thesis by (simp add: attemptLoop_response)
  next
    case (TError e')
    show ?thesis
    proof (cases "retry (evaluate a (classify X p e') p)")
      case True
      with TError "1.prems" "1.IH"[OF TError True] show ?thesis
        by (subst (asm) attemptLoop.simps) simp
    next
      case False
      with TError "1.prems" have "e' = e" by (simp add: attemptLoop_stop)
      with TError show ?thesis by blast
    qed
  qed
qed

lemma execute_alwaysFails:
  assumes "retryable X p e"
  shows "execute X sdk p (alwaysFails e) hs h =
           \<lparr>final = TError e, dispatched = Suc (maxAttempts p),
            heapAfter = heapAfter (execute X sdk p (alwaysFails e) hs h)\<rparr>"
proof -
  have a: "allAttemptsFailRetryably X p (alwaysFails e)"
    using assms by (simp add: allAttemptsFailRetryably_def alwaysFails_def)
  from execute_all_fail[OF a, of sdk hs h] obtain e' where
    d: "dispatched (execute X sdk p (alwaysFails e) hs h) = Suc (maxAttempts p)"
    and f: "final (execute X sdk p (alwaysFails e) hs h) = TError e'" by blast
  from f have "\<exists>i hs'. alwaysFails e i hs' = TError e'"
    unfolding execute_def by (rule attemptLoop_final_error)
  then have "e' = e" by (simp add: alwaysFails_def)
  with d f show ?thesis by (cases "execute X sdk p (alwaysFails e) hs h") simp
qed

lemma plain_policy_fields:
  "plain_policy X c operation b = Some p \<Longrightarrow> shouldRetry p = None \<and> \<not> retryOn429 p"
  by (auto simp: plain_policy_def split: option.splits)

lemma not_retryable_client_status:
  "shouldRetry p = None \<Longrightarrow> errStatus e = Some s \<Longrightarrow> \<not> (500 \<le> s \<and> s < 600) \<Longrightarrow>
   \<not> (s = 429 \<and> retryOn429 p) \<Longrightarrow> \<not> retryable X p e"
  by (simp add: retryable_def classify_def)

section \<open>Operations on their first attempt\<close>

lemma getChatToken_first_response:
  assumes "0 \<le> k" "getChatToken_policy X (h (configuration sdk)) k = Some p" "firstAnswer tr r"
  shows "getChatToken X sdk h requestId params k fresh tr =
     Some \<lparr>settled = fst (getChatToken_onResponse X sdk h (requestIdOr requestId fresh) params r),
           attempts = 1,
           sdkAfter = fst (snd (getChatToken_onResponse X sdk h (requestIdOr requestId fresh) params r)),
           storeAfter = snd (snd (getChatToken_onResponse X sdk h (requestIdOr requestId fresh) params r))\<rparr>"
proof -
  let ?hs = "getChatToken_requestHeaders X sdk h (requestIdOr requestId fresh) params"
  from assms(3) have "tr 0 ?hs = TResponse r" by (simp add: firstAnswer_def)
  then have "execute X sdk p tr ?hs h = \<lparr>final = TResponse r, dispatched = Suc 0, heapAfter = h\<rparr>"
    by (rule execute_response)
  with assms(1,2) show ?thesis
    by (simp add: getChatToken_def Let_def split: prod.splits)
qed

lemma getChatToken_first_failure:
  assumes "0 \<le> k" "getChatToken_policy X (h (configuration sdk)) k = Some p"
    "firstFailure tr e" "\<not> retryable X p e"
  shows "getChatToken X sdk h requestId params k fresh tr =
     Some \<lparr>settled = rejectNormalized X e, attempts = 1, sdkAfter = sdk,
           storeAfter = setAuthCodeNonce sdk (errHeaders e) h\<rparr>"
proof -
  let ?hs = "getChatToken_requestHeaders X sdk h (requestIdOr requestId fresh) params"
  from assms(3) have "tr 0 ?hs = TError e" by (simp add: firstFailure_def)
  with assms(4) have "execute X sdk p tr ?hs h =
     \<lparr>final = TError e, dispatched = Suc 0, heapAfter = setAuthCodeNonce sdk (errHeaders e) h\<rparr>"
    by (simp add: execute_stop)
  with assms(1,2) show ?thesis
    by (simp add: getChatToken_def Let_def)
qed

lemma createConversation_first_response:
  assumes "sessionInit_policy X (h (configuration sdk)) = Some p" "passesValidation X params"
    "firstAnswer tr r"
  shows "createConversation X sdk h requestId params tr =
     Some \<lparr>settled = fst (createConversation_onResponse X sdk h requestId r),
           attempts = 1,
           sdkAfter = fst (snd (createConversation_onResponse X sdk h requestId r)),
           storeAfter = snd (snd (createConversation_onResponse X sdk h requestId r))\<rparr>"
proof -
  let ?hs = "createConversation_requestHeaders X sdk h requestId params"
  from assms(3) have "tr 0 ?hs = TResponse r" by (simp add: firstAnswer_def)
  then have "execute X sdk p tr ?hs h = \<lparr>final = TResponse r, dispatched = Suc 0, heapAfter = h\<rparr>"
    by (rule execute_response)
  with assms(1,2) show ?thesis
    by (auto simp: createConversation_def passesValidation_def Let_def split: prod.splits)
qed

lemma validateAuthChatRecord_first_failure:
  assumes "plain_policy X (h (configuration sdk)) ''validateAuthChatRecord'' True = Some p"
    "firstFailure tr e" "\<not> retryable X p e"
  shows "validateAuthChatRecord X sdk h requestId token tr =
     Some \<lparr>settled = validateAuthChatRecord_catch X e, attempts = 1, sdkAfter = sdk,
           storeAfter = setAuthCodeNonce sdk (errHeaders e) h\<rparr>"
proof -
  let ?hs = "validateAuthChatRecord_requestHeaders X sdk h requestId token"
  from assms(2) have "tr 0 ?hs = TError e" by (simp add: firstFailure_def)
  with assms(3) have "execute X sdk p tr ?hs h =
     \<lparr>final = TError e, dispatched = Suc 0, heapAfter = setAuthCodeNonce sdk (errHeaders e) h\<rparr>"
    by (simp add: execute_stop)
  with assms(1) show ?thesis
    by (simp add: validateAuthChatRecord_def Let_def)
qed

lemma getChatConfig_failure:
  assumes "plain_policy X (h (configuration sdk)) ''getChatConfig'' False = Some p"
    and "retryable X p e"
  shows "\<exists>res. getChatConfig X sdk h requestId bypassCache fresh (alwaysFails e) = Some res \<and>
           settled res = Rejected (RejectedError e) \<and> attempts res = Suc (maxAttempts p)"
proof -
  let ?hs0 = "addDefaultHeaders X sdk (Some (requestIdOr requestId fresh)) Map.empty"
  let ?hs = "if bypassCache then bypassCacheHeaders X ++ ?hs0 else ?hs0"
  from execute_alwaysFails[OF assms(2), of sdk ?hs h]
  have "final (execute X sdk p (alwaysFails e) ?hs h) = TError e"
    "dispatched (execute X sdk p (alwaysFails e) ?hs h) = Suc (maxAttempts p)"
    by (metis DispatchResult.select_convs(1), metis DispatchResult.select_convs(2))
  with assms(1) show ?thesis
    by (simp add: getChatConfig_def Let_def)
qed

section \<open>The sample values\<close>

lemma sample_token_policy:
  "getChatToken_policy sampleExternals (sampleStore (configuration sampleSDK)) 0 =
     Some sampleTokenPolicy"
  by (simp add: getChatToken_policy_def sampleStore_def sampleSDK_def classLoad_def
      defaultConfiguration_def sampleExternals_def sampleTokenPolicy_def)

lemma sample_plain_policy:
  "op \<in> {''getChatConfig'', ''validateAuthChatRecord''} \<Longrightarrow>
   plain_policy sampleExternals (sampleStore (configuration sampleSDK)) op b =
     Some (samplePlainPolicy b)"
  by (auto simp: plain_policy_def sampleStore_def sampleSDK_def classLoad_def
      defaultConfiguration_def sampleExternals_def samplePlainPolicy_def)

lemma sample_session_policy:
  "\<exists>q. sessionInit_policy sampleExternals (sampleStore (configuration sampleSDK)) = Some q"
  by (simp add: sessionInit_policy_def sampleStore_def sampleSDK_def classLoad_def
      defaultConfiguration_def sampleExternals_def)

lemma firstAnswer_answers: "firstAnswer (answers r) r"
  by (simp add: firstAnswer_def answers_def)

lemma firstFailure_alwaysFails: "firstFailure (alwaysFails e) e"
  by (simp add: firstFailure_def alwaysFails_def)

lemma sample_constructor:
  "SDK_constructor sampleExternals sampleOmnichannelConfiguration Undefined sampleStore =
     (sampleStore, Inr sampleSDK)"
  by (simp add: SDK_constructor_def chooseConfiguration_def Let_def sampleSDK_def
      sampleStore_def classLoad_def defaultConfiguration_def fillMissingKeys_def
      fillMissingTimeouts_def sampleOmnichannelConfiguration_def sampleExternals_def)


section \<open>The claims\<close>

text \<open>
  C1. For every retry policy with \<open>maxAttempts = n\<close> and every transport whose attempts
  \<open>0..n\<close> (\<open>n + 1\<close> consecutive attempts) all fail with a retryable failure, the engine
  dispatches exactly \<open>n + 1\<close> attempts (\<open>n\<close> retries) and ends with a failure; once the
  attempt number has reached \<open>maxAttempts\<close> the verdict is never to retry, whatever the
  failure. \<open>getChatToken\<close>, whose policy takes \<open>maxAttempts\<close> from the larger of
  \<open>currentRetryCount\<close> and \<open>maxRequestRetriesOnFailure\<close>, then dispatches that many
  attempts and rejects.
\<close>

theorem C1_retry_ceiling:
  "(allAttemptsFailRetryably X p tr \<longrightarrow>
      dispatched (execute X sdk p tr hs h) = maxAttempts p + 1 \<and>
      (\<exists>e. final (execute X sdk p tr hs h) = TError e))
   \<and> (maxAttempts p \<le> attemptNumber a \<longrightarrow> \<not> retry (evaluate a f p))
   \<and> (0 \<le> k \<and> getChatToken_policy X (h (configuration sdk)) k = Some p \<and>
        allAttemptsFailRetryably X p tr \<longrightarrow>
        (\<exists>res e. getChatToken X sdk h requestId params k fresh tr = Some res \<and>
           attempts res = maxAttempts p + 1 \<and> settled res = Rejected (RejectedError e)))"
proof -
  have engine: "dispatched (execute X sdk p tr hs h) = maxAttempts p + 1 \<and>
      (\<exists>e. final (execute X sdk p tr hs h) = TError e)"
    if "allAttemptsFailRetryably X p tr"
    using execute_all_fail[OF that, of sdk hs h] by auto
  have ceiling: "\<not> retry (evaluate a f p)" if "maxAttempts p \<le> attemptNumber a"
    using that by (simp add: evaluate_def)
  have call: "\<exists>res e. getChatToken X sdk h requestId params k fresh tr = Some res \<and>
           attempts res = maxAttempts p + 1 \<and> settled res = Rejected (RejectedError e)"
    if a: "0 \<le> k \<and> getChatToken_policy X (h (configuration sdk)) k = Some p \<and>
        allAttemptsFailRetryably X p tr"
  proof -
    let ?hs = "getChatToken_requestHeaders X sdk h (requestIdOr requestId fresh) params"
    from a execute_all_fail[of X p tr sdk ?hs h]
    obtain e where e: "dispatched (execute X sdk p tr ?hs h) = Suc (maxAttempts p)"
      "final (execute X sdk p tr ?hs h) = TError e" by auto
    obtain e' where "(rejectNormalized X e :: body promise) = Rejected (RejectedError e')"
      using rejectNormalized_rejected by blast
    with a e show ?thesis
      by (simp add: getChatToken_def Let_def)
  qed
  from engine ceiling call show ?thesis by blast
qed

theorem C1_retry_ceiling_witness:
  "allAttemptsFailRetryably sampleExternals samplePolicy (alwaysFails (statusError 429))
   \<and> dispatched (execute sampleExternals sampleSDK samplePolicy
        (alwaysFails (statusError 429)) Map.empty sampleStore) = 3
   \<and> \<not> retry (evaluate \<lparr>attemptNumber = 2, startedAt = 0, lastFailure = None\<rparr>
          (classify sampleExternals samplePolicy (statusError 429)) samplePolicy)
   \<and> (\<exists>res e. getChatToken sampleExternals sampleSDK sampleStore None sampleParams 0
          ''r1'' (alwaysFails (statusError 500)) = Some res \<and>
        attempts res = 6 \<and> settled res = Rejected (RejectedError e))"
proof -
  have a: "allAttemptsFailRetryably sampleExternals samplePolicy (alwaysFails (statusError 429))"
    by (simp add: allAttemptsFailRetryably_def retryable_def classify_def alwaysFails_def
        statusError_def samplePolicy_def sampleExternals_def)
  let ?p = "\<lparr>maxAttempts = 5, backoffMillis = 1000, retryOn429 = True,
             headerOverwrites = [''AuthCodeNonce''], shouldRetry = None\<rparr>"
  have pol: "getChatToken_policy sampleExternals (sampleStore (configuration sampleSDK)) 0 = Some ?p"
    by (simp add: getChatToken_policy_def sampleStore_def sampleSDK_def classLoad_def
        defaultConfiguration_def sampleExternals_def)
  have b: "allAttemptsFailRetryably sampleExternals ?p (alwaysFails (statusError 500))"
    by (simp add: allAttemptsFailRetryably_def retryable_def classify_def alwaysFails_def
        statusError_def sampleExternals_def)
  from a
    C1_retry_ceiling[where X = sampleExternals and p = samplePolicy
      and tr = "alwaysFails (statusError 429)" and sdk = sampleSDK and hs = Map.empty
      and h = sampleStore and a = "\<lparr>attemptNumber = 2, startedAt = 0, lastFailure = None\<rparr>"
      and f = "classify sampleExternals samplePolicy (statusError 429)" and k = "-1"]
  have one: "dispatched (execute sampleExternals sampleSDK samplePolicy
        (alwaysFails (statusError 429)) Map.empty sampleStore) = 3
     \<and> \<not> retry (evaluate \<lparr>attemptNumber = 2, startedAt = 0, lastFailure = None\<rparr>
          (classify sampleExternals samplePolicy (statusError 429)) samplePolicy)"
    by (simp add: samplePolicy_def)
  from pol b
    C1_retry_ceiling[where X = sampleExternals and p = ?p
      and tr = "alwaysFails (statusError 500)" and sdk = sampleSDK and h = sampleStore
      and k = 0 and requestId = None and params = sampleParams and fresh = "''r1''"]
  have two: "\<exists>res e. getChatToken sampleExternals sampleSDK sampleStore None sampleParams 0
          ''r1'' (alwaysFails (statusError 500)) = Some res \<and>
        attempts res = 6 \<and> settled res = Rejected (RejectedError e)"
    by simp
  from a one two show ?thesis by blast
qed

text \<open>
  C3. Processing a response's headers overwrites only the fields the response carries: a
  (truthy) \<open>authcodenonce\<close> header becomes the nonce the very next read observes; a
  response without that header, or without headers, leaves the store as it is; a response
  without the session-id header leaves the instance as it is; no other field of the
  configuration or of the instance is ever written. \<open>getChatToken\<close> commits exactly
  this on every response.
\<close>

theorem C3_commit_overwrites_only_present_fields:
  "(truthy (m ''authcodenonce'') \<longrightarrow>
      readAuthCodeNonce sdk (setAuthCodeNonce sdk (Some m) h) = m ''authcodenonce'')
   \<and> (\<not> truthy (m ''authcodenonce'') \<longrightarrow> setAuthCodeNonce sdk (Some m) h = h)
   \<and> setAuthCodeNonce sdk None h = h
   \<and> (\<not> truthy (m (toLowerCase (hdrOcSessionId X))) \<longrightarrow> setSessionId X (Some m) sdk = sdk)
   \<and> setSessionId X None sdk = sdk
   \<and> (truthy (m (toLowerCase (hdrOcSessionId X))) \<longrightarrow>
        sessionId (setSessionId X (Some m) sdk) = m (toLowerCase (hdrOcSessionId X)))
   \<and> (\<forall>ref v. (setAuthCodeNonce sdk hs h ref)\<lparr>authCodeNonce := v\<rparr> = (h ref)\<lparr>authCodeNonce := v\<rparr>)
   \<and> (\<forall>v. (setSessionId X hs sdk)\<lparr>sessionId := v\<rparr> = sdk\<lparr>sessionId := v\<rparr>)
   \<and> snd (getChatToken_onResponse X sdk h rid params r) =
        (setSessionId X (headers r) sdk, setAuthCodeNonce sdk (headers r) h)"
  by (auto simp: readAuthCodeNonce_def setAuthCodeNonce_def setSessionId_def
      getChatToken_onResponse_def Let_def split: option.splits body.splits)

theorem C3_commit_witness:
  "readAuthCodeNonce sampleSDK
      (setAuthCodeNonce sampleSDK (Some [''authcodenonce'' \<mapsto> ''n2'']) sampleStore) = Some ''n2''
   \<and> setAuthCodeNonce sampleSDK (Some [''date'' \<mapsto> ''today'']) sampleStore = sampleStore
   \<and> readAuthCodeNonce sampleSDK sampleStore = Some ''123e4567''
   \<and> setSessionId sampleExternals (Some [''date'' \<mapsto> ''today''])
        (sampleSDK\<lparr>sessionId := Some ''s1''\<rparr>) = sampleSDK\<lparr>sessionId := Some ''s1''\<rparr>
   \<and> sessionId (setSessionId sampleExternals (Some [''oc-sessionid'' \<mapsto> ''s2'']) sampleSDK)
        = Some ''s2''"
proof -
  have low: "toLowerCase (hdrOcSessionId sampleExternals) = ''oc-sessionid''"
    by (simp add: sampleExternals_def toLowerCase_def toLowerCaseChar_def)
  have n0: "readAuthCodeNonce sampleSDK sampleStore = Some ''123e4567''"
    by (simp add: readAuthCodeNonce_def sampleSDK_def sampleStore_def classLoad_def
        defaultConfiguration_def substring_def sampleUuid_def)
  from C3_commit_overwrites_only_present_fields[where m = "[''authcodenonce'' \<mapsto> ''n2'']"
      and sdk = sampleSDK and h = sampleStore]
  have c1: "readAuthCodeNonce sampleSDK
      (setAuthCodeNonce sampleSDK (Some [''authcodenonce'' \<mapsto> ''n2'']) sampleStore) = Some ''n2''"
    by simp
  from C3_commit_overwrites_only_present_fields[where m = "[''date'' \<mapsto> ''today'']"
      and sdk = "sampleSDK\<lparr>sessionId := Some ''s1''\<rparr>" and h = sampleStore and X = sampleExternals]
  have c2: "setSessionId sampleExternals (Some [''date'' \<mapsto> ''today''])
        (sampleSDK\<lparr>sessionId := Some ''s1''\<rparr>) = sampleSDK\<lparr>sessionId := Some ''s1''\<rparr>"
    by (simp add: low)
  from C3_commit_overwrites_only_present_fields[where m = "[''date'' \<mapsto> ''today'']"
      and sdk = sampleSDK and h = sampleStore]
  have c3: "setAuthCodeNonce sampleSDK (Some [''date'' \<mapsto> ''today'']) sampleStore = sampleStore"
    by simp
  from C3_commit_overwrites_only_present_fields[where m = "[''oc-sessionid'' \<mapsto> ''s2'']"
      and sdk = sampleSDK and X = sampleExternals]
  have c4: "sessionId (setSessionId sampleExternals (Some [''oc-sessionid'' \<mapsto> ''s2'']) sampleSDK)
        = Some ''s2''"
    by (simp add: low)
  from c1 c2 c3 c4 n0 show ?thesis by blast
qed

text \<open>
  C2 (as amended). A reconnect request (\<open>getChatToken\<close> with a truthy \<open>reconnectId\<close>)
  whose response has status 204 and a falsy body is not resolved: the promise is rejected
  with the response object itself, and the call has dispatched exactly one attempt.
\<close>

theorem C2_reconnect_no_content_is_rejected_with_the_response:
  assumes "0 \<le> k" and "getChatToken_policy X (h (configuration sdk)) k = Some p"
    and "truthy (reconnectId params)" and "status r = 204" and "falsyBody (data r)"
    and "firstAnswer tr r"
  shows "\<exists>res. getChatToken X sdk h requestId params k fresh tr = Some res \<and>
           settled res = Rejected (RejectedResponse r) \<and> attempts res = 1"
  using assms getChatToken_first_response[where k = k and X = X and h = h and sdk = sdk
      and p = p and tr = tr and r = r and requestId = requestId and params = params
      and fresh = fresh]
  by (cases "data r") (simp_all add: getChatToken_onResponse_def Let_def noContentStatusCode_def)

theorem C2_witness:
  "\<exists>res. getChatToken sampleExternals sampleSDK sampleStore (Some ''r1'') reconnectParams 0 ''u1''
            (answers noContentResponse) = Some res \<and>
         settled res = Rejected (RejectedResponse noContentResponse) \<and> attempts res = 1"
  using C2_reconnect_no_content_is_rejected_with_the_response[where k = 0
      and X = sampleExternals and h = sampleStore
      and sdk = sampleSDK and p = sampleTokenPolicy and tr = "answers noContentResponse"
      and r = noContentResponse and requestId = "Some ''r1''" and params = reconnectParams
      and fresh = "''u1''"]
    sample_token_policy firstAnswer_answers[of noContentResponse]
  by (simp add: noContentResponse_def reconnectParams_def)

text \<open>The claim as stated (the call resolves, it is not a rejection) fails on a reconnect
  request answered by 204 without a body.\<close>

theorem C2_counterexample:
  "getChatToken sampleExternals sampleSDK sampleStore (Some ''r1'') reconnectParams 0 ''u1''
     (answers noContentResponse) =
   Some \<lparr>settled = Rejected (RejectedResponse noContentResponse), attempts = 1,
         sdkAfter = sampleSDK, storeAfter = sampleStore\<rparr>"
  using getChatToken_first_response[where k = 0 and X = sampleExternals and h = sampleStore
      and sdk = sampleSDK and p = sampleTokenPolicy and tr = "answers noContentResponse"
      and r = noContentResponse and requestId = "Some ''r1''" and params = reconnectParams
      and fresh = "''u1''"]
    sample_token_policy firstAnswer_answers[of noContentResponse]
  by (simp add: getChatToken_onResponse_def Let_def noContentResponse_def reconnectParams_def
      noContentStatusCode_def setAuthCodeNonce_def setSessionId_def)

text \<open>
  C5. A response whose body is the empty object makes \<open>getChatToken\<close> reject with the
  error \<open>Empty data received from getChatToken\<close>, and \<open>createConversation\<close> throw it
  (its \<open>catch\<close> block rethrows it unless \<open>isExpectedAxiosError\<close> takes it for a
  timeout); both have dispatched exactly one attempt. The status of the response plays no
  part, so this holds for status 200.
\<close>

theorem C5_empty_object_is_rejected_and_not_retried:
  "(0 \<le> k \<and> getChatToken_policy X (h (configuration sdk)) k = Some p \<and>
      data r = Object [] \<and> firstAnswer tr r \<longrightarrow>
      (\<exists>res. getChatToken X sdk h requestId params k fresh tr = Some res \<and>
         settled res = Rejected (RejectedError (newError ''Empty data received from getChatToken'')) \<and>
         attempts res = 1))
   \<and> (sessionInit_policy X (h (configuration sdk)) = Some q \<and> passesValidation X sparams \<and>
        data r = Object [] \<and> firstAnswer tr r \<longrightarrow>
      (\<exists>res err. createConversation X sdk h requestId sparams tr = Some res \<and>
         settled res = Rejected (RejectedError err) \<and> attempts res = 1 \<and>
         (\<not> isExpectedAxiosError X (newError ''Empty data received from getChatToken'')
              (axiosTimeoutErrorCode X) \<longrightarrow>
          err = newError ''Empty data received from getChatToken'')))"
proof -
  have tok: "\<exists>res. getChatToken X sdk h requestId params k fresh tr = Some res \<and>
         settled res = Rejected (RejectedError (newError ''Empty data received from getChatToken'')) \<and>
         attempts res = 1"
    if a: "0 \<le> k \<and> getChatToken_policy X (h (configuration sdk)) k = Some p \<and>
      data r = Object [] \<and> firstAnswer tr r"
    using a getChatToken_first_response[where k = k and X = X and h = h and sdk = sdk
      and p = p and tr = tr and r = r and requestId = requestId and params = params
      and fresh = fresh]
    by (simp add: getChatToken_onResponse_def Let_def)
  have conv: "\<exists>res err. createConversation X sdk h requestId sparams tr = Some res \<and>
         settled res = Rejected (RejectedError err) \<and> attempts res = 1 \<and>
         (\<not> isExpectedAxiosError X (newError ''Empty data received from getChatToken'')
              (axiosTimeoutErrorCode X) \<longrightarrow>
          err = newError ''Empty data received from getChatToken'')"
    if a: "sessionInit_policy X (h (configuration sdk)) = Some q \<and> passesValidation X sparams \<and>
        data r = Object [] \<and> firstAnswer tr r"
    using a createConversation_first_response[where X = X and h = h and sdk = sdk
      and p = q and params = sparams and tr = tr and r = r and requestId = requestId]
    by (simp add: createConversation_onResponse_def createConversation_catch_def Let_def)
  from tok conv show ?thesis by blast
qed

theorem C5_witness:
  "(\<exists>res. getChatToken sampleExternals sampleSDK sampleStore (Some ''r1'') sampleParams 0 ''u1''
            (answers emptyObjectResponse) = Some res \<and>
         settled res = Rejected (RejectedError (newError ''Empty data received from getChatToken'')) \<and>
         attempts res = 1)
   \<and> (\<exists>res. createConversation sampleExternals sampleSDK sampleStore (Some ''r1'')
            sampleSessionParams (answers emptyObjectResponse) = Some res \<and>
         settled res = Rejected (RejectedError (newError ''Empty data received from getChatToken'')) \<and>
         attempts res = 1)"
proof -
  obtain q where q: "sessionInit_policy sampleExternals (sampleStore (configuration sampleSDK)) = Some q"
    using sample_session_policy by blast
  have v: "passesValidation sampleExternals sampleSessionParams"
    by (simp add: passesValidation_def sampleExternals_def sampleSessionParams_def)
  have d: "data emptyObjectResponse = Object []" by (simp add: emptyObjectResponse_def)
  have n: "\<not> isExpectedAxiosError sampleExternals
             (newError ''Empty data received from getChatToken'')
             (axiosTimeoutErrorCode sampleExternals)"
    by (simp add: sampleExternals_def newError_def)
  from C5_empty_object_is_rejected_and_not_retried[where k = 0
      and X = sampleExternals and h = sampleStore
      and sdk = sampleSDK and p = sampleTokenPolicy and q = q
      and tr = "answers emptyObjectResponse"
      and r = emptyObjectResponse and requestId = "Some ''r1''" and params = sampleParams
      and sparams = sampleSessionParams and fresh = "''u1''"]
    sample_token_policy firstAnswer_answers[of emptyObjectResponse] q v d n
  show ?thesis by auto
qed

text \<open>What the \<open>catch\<close> block of \<open>validateAuthChatRecord\<close> does with every error: it
  resolves with the empty object exactly when \<open>toString()\<close> is
  \<open>Error: Request failed with status code 404\<close> and \<open>isExpectedAxiosError\<close> does not
  take the error for a timeout.\<close>

lemma validateAuthChatRecord_catch_cases:
  "(toString e = ''Error: Request failed with status code 404'' \<and>
      \<not> isExpectedAxiosError X e (axiosTimeoutErrorCode X) \<longrightarrow>
      validateAuthChatRecord_catch X e = Resolved (Object []))
   \<and> (\<not> (toString e = ''Error: Request failed with status code 404'' \<and>
          \<not> isExpectedAxiosError X e (axiosTimeoutErrorCode X)) \<longrightarrow>
        (\<exists>x. validateAuthChatRecord_catch X e = Rejected (RejectedError x)))"
  by (auto simp: validateAuthChatRecord_catch_def Let_def)

text \<open>
  C7. A 404 failure of \<open>validateAuthChatRecord\<close> is to resolve with the empty object, and
  the \<open>catch\<close> block has a branch for it, kept for backward compatibility. The branch
  compares \<open>error.toString()\<close> with \<open>Error: Request failed with status code 404\<close>. The
  error of a 404 answer under the axios version the package depends on (1.x) is named
  \<open>AxiosError\<close>: it renders as \<open>AxiosError: Request failed with status code 404\<close>, the
  comparison fails, and the call is rejected with the error, whatever
  \<open>isExpectedAxiosError\<close> is.
\<close>

theorem C7_axios_404_is_rejected:
  "errStatus notFoundAxiosError = Some 404
   \<and> toString notFoundAxiosError = ''AxiosError: Request failed with status code 404''
   \<and> (\<exists>x. validateAuthChatRecord_catch X notFoundAxiosError = Rejected (RejectedError x))
   \<and> validateAuthChatRecord sampleExternals sampleSDK sampleStore (Some ''r1'') (Some ''jwt'')
        (alwaysFails notFoundAxiosError) =
      Some \<lparr>settled = Rejected (RejectedError notFoundAxiosError), attempts = 1,
            sdkAfter = sampleSDK, storeAfter = sampleStore\<rparr>"
proof -
  let ?p = "\<lparr>maxAttempts = 5, backoffMillis = 1000, retryOn429 = False,
             headerOverwrites = [''AuthCodeNonce''], shouldRetry = None\<rparr>"
  have pol: "plain_policy sampleExternals (sampleStore (configuration sampleSDK))
               ''validateAuthChatRecord'' True = Some ?p"
    by (simp add: plain_policy_def sampleStore_def sampleSDK_def classLoad_def
        defaultConfiguration_def sampleExternals_def)
  have nr: "\<not> retryable sampleExternals ?p notFoundAxiosError"
    by (simp add: retryable_def classify_def notFoundAxiosError_def)
  have ff: "firstFailure (alwaysFails notFoundAxiosError) notFoundAxiosError"
    by (simp add: firstFailure_def alwaysFails_def)
  have t: "toString notFoundAxiosError = ''AxiosError: Request failed with status code 404''"
    by (simp add: toString_def notFoundAxiosError_def)
  have ne: "toString notFoundAxiosError \<noteq> ''Error: Request failed with status code 404''"
    by (simp add: t)
  have any: "\<exists>x. validateAuthChatRecord_catch X notFoundAxiosError = Rejected (RejectedError x)"
    by (simp add: validateAuthChatRecord_catch_def ne Let_def)
  have nt: "\<not> isExpectedAxiosError sampleExternals notFoundAxiosError
              (axiosTimeoutErrorCode sampleExternals)"
    by (simp add: sampleExternals_def notFoundAxiosError_def)
  have c: "validateAuthChatRecord_catch sampleExternals notFoundAxiosError =
             Rejected (RejectedError notFoundAxiosError)"
    by (simp add: validateAuthChatRecord_catch_def ne nt Let_def)
  have s: "setAuthCodeNonce sampleSDK (errHeaders notFoundAxiosError) sampleStore = sampleStore"
    by (simp add: setAuthCodeNonce_def notFoundAxiosError_def)
  from pol ff nr
    validateAuthChatRecord_first_failure[where X = sampleExternals and h = sampleStore
      and sdk = sampleSDK and p = ?p and tr = "alwaysFails notFoundAxiosError"
      and e = notFoundAxiosError and requestId = "Some ''r1''" and token = "Some ''jwt''"]
  have call: "validateAuthChatRecord sampleExternals sampleSDK sampleStore (Some ''r1'')
        (Some ''jwt'') (alwaysFails notFoundAxiosError) =
      Some \<lparr>settled = Rejected (RejectedError notFoundAxiosError), attempts = 1,
            sdkAfter = sampleSDK, storeAfter = sampleStore\<rparr>"
    by (simp add: c s)
  have st: "errStatus notFoundAxiosError = Some 404" by (simp add: notFoundAxiosError_def)
  from st t any call show ?thesis by blast
qed

text \<open>
  C9. When the transport answers with a falsy body and the call has no truthy
  \<open>reconnectId\<close> or the status is not 204, \<open>getChatToken\<close> neither resolves nor
  rejects: its promise stays pending.
\<close>

theorem C9_getChatToken_can_stay_pending:
  assumes "0 \<le> k" and "getChatToken_policy X (h (configuration sdk)) k = Some p"
    and "falsyBody (data r)" and "\<not> truthy (reconnectId params) \<or> status r \<noteq> 204"
    and "firstAnswer tr r"
  shows "\<exists>res. getChatToken X sdk h requestId params k fresh tr = Some res \<and>
           settled res = Pending \<and> attempts res = 1"
  using assms getChatToken_first_response[where k = k and X = X and h = h and sdk = sdk
      and p = p and tr = tr and r = r and requestId = requestId and params = params
      and fresh = fresh]
  by (cases "data r") (auto simp: getChatToken_onResponse_def Let_def noContentStatusCode_def)

theorem C9_witness:
  "\<exists>res. getChatToken sampleExternals sampleSDK sampleStore (Some ''r1'') sampleParams 0 ''u1''
            (answers emptyBodyResponse) = Some res \<and>
         settled res = Pending \<and> attempts res = 1"
  using C9_getChatToken_can_stay_pending[where k = 0
      and X = sampleExternals and h = sampleStore
      and sdk = sampleSDK and p = sampleTokenPolicy and tr = "answers emptyBodyResponse"
      and r = emptyBodyResponse and requestId = "Some ''r1''" and params = sampleParams
      and fresh = "''u1''"]
    sample_token_policy firstAnswer_answers[of emptyBodyResponse]
  by (simp add: emptyBodyResponse_def sampleParams_def)

text \<open>
  C4. A failure with status 429 is never retried under a policy that has \<open>retryOn429\<close>
  off and no custom predicate, whatever attempt budget remains: the verdict is not to
  retry and the call ends after the attempt. A 429 that is retried was enabled by the
  policy, through \<open>retryOn429\<close> or through its custom predicate. \<open>getChatToken\<close> builds a
  policy without predicate whose flag is \<open>getChatTokenRetryOn429\<close>; \<open>sessionInit\<close>
  and \<open>createConversation\<close> build one whose predicate is \<open>sessionInitRetryHandler\<close>
  with \<open>retryOn429 = true\<close>.
\<close>

theorem C4_429_is_retried_only_when_the_policy_enables_it:
  "(errStatus e = Some 429 \<and> \<not> retryOn429 p \<and> shouldRetry p = None \<longrightarrow>
      \<not> retry (evaluate a (classify X p e) p) \<and>
      (firstFailure tr e \<longrightarrow>
         dispatched (execute X sdk p tr hs h) = 1 \<and> final (execute X sdk p tr hs h) = TError e))
   \<and> (errStatus e = Some 429 \<and> retry (evaluate a (classify X p e) p) \<longrightarrow>
        attemptNumber a < maxAttempts p \<and>
        (retryOn429 p \<or> (\<exists>pr. shouldRetry p = Some pr \<and> pr e)))
   \<and> (getChatToken_policy X c k = Some p \<longrightarrow>
        shouldRetry p = None \<and> (retryOn429 p \<longleftrightarrow> getChatTokenRetryOn429 c = Some True))
   \<and> (sessionInit_policy X c = Some p \<longrightarrow>
        shouldRetry p = Some (\<lambda>error. sessionInitRetryHandler X error True))
   \<and> (0 \<le> k \<and> getChatToken_policy X (h (configuration sdk)) k = Some p \<and>
        \<not> retryOn429 p \<and> errStatus e = Some 429 \<and> firstFailure tr e \<longrightarrow>
        (\<exists>res. getChatToken X sdk h requestId params k fresh tr = Some res \<and>
           attempts res = 1 \<and> settled res = rejectNormalized X e))"
proof -
  have nr: "\<not> retryable X p e" if "errStatus e = Some 429 \<and> \<not> retryOn429 p \<and> shouldRetry p = None"
    using that by (simp add: not_retryable_client_status)
  have one: "\<not> retry (evaluate a (classify X p e) p) \<and>
      (firstFailure tr e \<longrightarrow>
         dispatched (execute X sdk p tr hs h) = 1 \<and> final (execute X sdk p tr hs h) = TError e)"
    if t: "errStatus e = Some 429 \<and> \<not> retryOn429 p \<and> shouldRetry p = None"
  proof -
    have "tr 0 hs = TError e" if "firstFailure tr e"
      using that by (simp add: firstFailure_def)
    with nr[OF t] show ?thesis
      by (simp add: retry_evaluate execute_stop)
  qed
  have two: "attemptNumber a < maxAttempts p \<and>
        (retryOn429 p \<or> (\<exists>pr. shouldRetry p = Some pr \<and> pr e))"
    if t: "errStatus e = Some 429 \<and> retry (evaluate a (classify X p e) p)"
  proof -
    from t have r: "attemptNumber a < maxAttempts p" "retryable X p e"
      by (simp_all add: retry_evaluate)
    from t r(2) have "retryOn429 p \<or> (\<exists>pr. shouldRetry p = Some pr \<and> pr e)"
      by (cases "shouldRetry p") (auto simp: retryable_def classify_def split: if_splits)
    with r(1) show ?thesis by simp
  qed
  have three: "shouldRetry p = None \<and> (retryOn429 p \<longleftrightarrow> getChatTokenRetryOn429 c = Some True)"
    if "getChatToken_policy X c k = Some p"
    using that by (auto simp: getChatToken_policy_def split: option.splits)
  have four: "shouldRetry p = Some (\<lambda>error. sessionInitRetryHandler X error True)"
    if "sessionInit_policy X c = Some p"
    using that by (auto simp: sessionInit_policy_def split: option.splits)
  have five: "\<exists>res. getChatToken X sdk h requestId params k fresh tr = Some res \<and>
           attempts res = 1 \<and> settled res = rejectNormalized X e"
    if t: "0 \<le> k \<and> getChatToken_policy X (h (configuration sdk)) k = Some p \<and>
        \<not> retryOn429 p \<and> errStatus e = Some 429 \<and> firstFailure tr e"
  proof -
    from t have "shouldRetry p = None"
      by (auto simp: getChatToken_policy_def split: option.splits)
    with t nr have "\<not> retryable X p e" by blast
    with t getChatToken_first_failure[where X = X and h = h and sdk = sdk and p = p
        and tr = tr and e = e and k = k and requestId = requestId and params = params
        and fresh = fresh]
    show ?thesis by simp
  qed
  from one two three four five show ?thesis by blast
qed

theorem C4_witness:
  "\<not> retry (evaluate \<lparr>attemptNumber = 0, startedAt = 0, lastFailure = None\<rparr>
        (classify sampleExternals (samplePlainPolicy True) (statusError 429))
        (samplePlainPolicy True))
   \<and> dispatched (execute sampleExternals sampleSDK (samplePlainPolicy True)
        (alwaysFails (statusError 429)) Map.empty sampleStore) = 1
   \<and> retry (evaluate \<lparr>attemptNumber = 0, startedAt = 0, lastFailure = None\<rparr>
        (classify sampleExternals sampleTokenPolicy (statusError 429)) sampleTokenPolicy)
   \<and> (\<exists>res. getChatToken sampleExternals configOffSDK configOffStore (Some ''r1'') sampleParams 0
          ''u1'' (alwaysFails (statusError 429)) = Some res \<and>
        attempts res = 1 \<and> settled res = Rejected (RejectedError (statusError 429)))"
proof -
  let ?a = "\<lparr>attemptNumber = 0, startedAt = 0, lastFailure = None\<rparr>"
  let ?q = "sampleTokenPolicy\<lparr>retryOn429 := False\<rparr>"
  have s: "errStatus (statusError 429) = Some 429" by (simp add: statusError_def)
  have pol: "getChatToken_policy sampleExternals (configOffStore (configuration configOffSDK)) 0 =
               Some ?q"
    by (simp add: getChatToken_policy_def configOffStore_def configOffSDK_def
        defaultConfiguration_def sampleExternals_def sampleTokenPolicy_def)
  have rn: "(rejectNormalized sampleExternals (statusError 429) :: body promise) =
              Rejected (RejectedError (statusError 429))"
    by (simp add: rejectNormalized_def sampleExternals_def statusError_def)
  from s firstFailure_alwaysFails[of "statusError 429"]
    C4_429_is_retried_only_when_the_policy_enables_it[where e = "statusError 429"
      and p = "samplePlainPolicy True" and a = ?a and X = sampleExternals
      and tr = "alwaysFails (statusError 429)" and sdk = sampleSDK and hs = Map.empty
      and h = sampleStore and k = "-1"]
  have one: "\<not> retry (evaluate ?a
        (classify sampleExternals (samplePlainPolicy True) (statusError 429))
        (samplePlainPolicy True))
   \<and> dispatched (execute sampleExternals sampleSDK (samplePlainPolicy True)
        (alwaysFails (statusError 429)) Map.empty sampleStore) = 1"
    by (simp add: samplePlainPolicy_def)
  have two: "retry (evaluate ?a
        (classify sampleExternals sampleTokenPolicy (statusError 429)) sampleTokenPolicy)"
    by (simp add: evaluate_def classify_def sampleTokenPolicy_def statusError_def)
  from s pol rn firstFailure_alwaysFails[of "statusError 429"]
    C4_429_is_retried_only_when_the_policy_enables_it[where e = "statusError 429"
      and p = ?q and X = sampleExternals
      and tr = "alwaysFails (statusError 429)" and sdk = configOffSDK
      and h = configOffStore and k = 0 and requestId = "Some ''r1''" and params = sampleParams
      and fresh = "''u1''"]
  have three: "\<exists>res. getChatToken sampleExternals configOffSDK configOffStore (Some ''r1'') sampleParams 0
          ''u1'' (alwaysFails (statusError 429)) = Some res \<and>
        attempts res = 1 \<and> settled res = Rejected (RejectedError (statusError 429))"
    by (simp add: sampleTokenPolicy_def)
  from one two three show ?thesis by blast
qed

text \<open>
  C6. The claim is that every operation surfaces a transport timeout as the fixed message
  \<open>HTTPTimeOutErrorMessage\<close>. \<open>getChatConfig\<close> does not: when every attempt times out
  it rejects with the transport's own error, where the \<open>catch\<close> block of
  \<open>getChatToken\<close> and of the other operations rejects with the fixed message.
\<close>

theorem C6_getChatConfig_timeout_is_not_normalized:
  "(\<exists>res. getChatConfig sampleExternals sampleSDK sampleStore (Some ''r1'') False ''u1''
            (alwaysFails timeoutError) = Some res \<and>
         settled res = Rejected (RejectedError timeoutError) \<and> attempts res = 6)
   \<and> isExpectedAxiosError sampleExternals timeoutError (axiosTimeoutErrorCode sampleExternals)
   \<and> (rejectNormalized sampleExternals timeoutError :: body promise) =
       Rejected (RejectedError
         (newError ''ClientHTTPTimeoutError: Server took too long to respond''))
   \<and> toString timeoutError = ''AxiosError: timeout of 15000ms exceeded''"
proof -
  have r: "retryable sampleExternals (samplePlainPolicy False) timeoutError"
    by (simp add: retryable_def classify_def samplePlainPolicy_def timeoutError_def
        sampleExternals_def)
  have p: "plain_policy sampleExternals (sampleStore (configuration sampleSDK))
             ''getChatConfig'' False = Some (samplePlainPolicy False)"
    by (simp add: sample_plain_policy)
  from p r getChatConfig_failure[where X = sampleExternals and h = sampleStore
      and sdk = sampleSDK and p = "samplePlainPolicy False" and e = timeoutError
      and requestId = "Some ''r1''" and bypassCache = False and fresh = "''u1''"]
  have a: "\<exists>res. getChatConfig sampleExternals sampleSDK sampleStore (Some ''r1'') False ''u1''
            (alwaysFails timeoutError) = Some res \<and>
         settled res = Rejected (RejectedError timeoutError) \<and> attempts res = 6"
    by (simp add: samplePlainPolicy_def)
  have b: "isExpectedAxiosError sampleExternals timeoutError (axiosTimeoutErrorCode sampleExternals)"
    by (simp add: sampleExternals_def timeoutError_def)
  have c: "(rejectNormalized sampleExternals timeoutError :: body promise) =
       Rejected (RejectedError
         (newError ''ClientHTTPTimeoutError: Server took too long to respond''))"
    using b by (simp add: rejectNormalized_def HTTPTimeOutErrorMessage_def sampleExternals_def)
  have d: "toString timeoutError = ''AxiosError: timeout of 15000ms exceeded''"
    by (simp add: toString_def timeoutError_def)
  from a b c d show ?thesis by blast
qed

lemma caller_constructor:
  "\<exists>hc sdk. SDK_constructor sampleExternals sampleOmnichannelConfiguration (ObjectAt 1)
              (sampleStore(1 := callerConfiguration)) = (hc, Inr sdk)"
  by (simp add: SDK_constructor_def chooseConfiguration_def Let_def
      callerConfiguration_def emptyConfiguration_def noKeys_def sampleStore_def classLoad_def
      defaultConfigurationRef_def defaultConfiguration_def fillMissingKeys_def
      sampleOmnichannelConfiguration_def sampleExternals_def)

text \<open>
  C8 (as amended). An instance whose constructor argument brings no nonce of its own (no
  configuration, a value that is not an object, an object without keys or without the
  \<open>authCodeNonce\<close> key) starts with the nonce the static default configuration holds at
  that moment. While the default is as its initialiser left it, that nonce is the first 8
  characters of the locally generated uuid, and the first authenticated \<open>getChatToken\<close>
  presents it in its nonce header. An instance whose configuration object has an
  \<open>authCodeNonce\<close> starts with, and presents, the caller's value.
\<close>

theorem C8_nonce_seeded_from_static_default_unless_supplied:
  assumes "SDK_constructor X oc arg h = (hc, Inr sdk)"
  shows "(suppliedNonce h arg = None \<longrightarrow>
            readAuthCodeNonce sdk hc = authCodeNonce (h defaultConfigurationRef))
         \<and> (suppliedNonce h arg = None \<and>
              h defaultConfigurationRef = defaultConfiguration X uuid \<longrightarrow>
              readAuthCodeNonce sdk hc = Some (take 8 uuid) \<and>
              (truthy token \<longrightarrow>
                 getChatToken_requestHeaders X sdk hc rid
                   \<lparr>reconnectId = rc, authenticatedUserToken = token\<rparr> (hdrAuthCodeNonce X) =
                 Some (take 8 uuid)))
         \<and> (\<forall>v. suppliedNonce h arg = Some v \<longrightarrow>
              readAuthCodeNonce sdk hc = Some v \<and>
              (truthy token \<longrightarrow>
                 getChatToken_requestHeaders X sdk hc rid
                   \<lparr>reconnectId = rc, authenticatedUserToken = token\<rparr> (hdrAuthCodeNonce X) =
                 Some v))"
proof -
  let ?ref = "chooseConfiguration h arg"
  let ?presented = "getChatToken_requestHeaders X sdk hc rid
                   \<lparr>reconnectId = rc, authenticatedUserToken = token\<rparr> (hdrAuthCodeNonce X)"
  have pres: "?presented = readAuthCodeNonce sdk hc" if "truthy token"
    using that by (simp add: getChatToken_requestHeaders_def addAuthHeaders_nonce)
  have own: "readAuthCodeNonce sdk hc =
               orDefault (authCodeNonce (h ?ref)) (authCodeNonce (h defaultConfigurationRef))"
    using SDK_constructor_Inr(1,2)[OF assms] by (simp add: readAuthCodeNonce_def)
  have none: "readAuthCodeNonce sdk hc = authCodeNonce (h defaultConfigurationRef)"
    if "suppliedNonce h arg = None"
  proof -
    from that have "authCodeNonce (h ?ref) = None \<or> ?ref = defaultConfigurationRef"
      by (cases arg) (auto simp: chooseConfiguration_def)
    with own show ?thesis by (auto simp: orDefault_same)
  qed
  have fresh: "authCodeNonce (h defaultConfigurationRef) = Some (take 8 uuid)"
    if "h defaultConfigurationRef = defaultConfiguration X uuid"
    using that by (simp add: defaultConfiguration_def substring_prefix)
  have some: "readAuthCodeNonce sdk hc = Some v" if "suppliedNonce h arg = Some v" for v
  proof -
    from that obtain a where a: "arg = ObjectAt a" "authCodeNonce (h a) = Some v"
      by (cases arg) simp_all
    then have "\<not> noKeys (h a)" by (simp add: noKeys_def)
    with a have "?ref = a" by (simp add: chooseConfiguration_def)
    with own a show ?thesis by simp
  qed
  from none fresh some pres show ?thesis by auto
qed

theorem C8_witness:
  "readAuthCodeNonce sampleSDK sampleStore = Some ''123e4567''
   \<and> getChatToken_requestHeaders sampleExternals sampleSDK sampleStore ''r1'' sampleParams
       ''AuthCodeNonce'' = Some ''123e4567''
   \<and> (\<exists>hc sdk. SDK_constructor sampleExternals sampleOmnichannelConfiguration (ObjectAt 1)
                  (sampleStore(1 := callerConfiguration)) = (hc, Inr sdk) \<and>
        readAuthCodeNonce sdk hc = Some ''callerNonce'' \<and>
        getChatToken_requestHeaders sampleExternals sdk hc ''r1'' sampleParams
          ''AuthCodeNonce'' = Some ''callerNonce'')"
proof -
  have d: "sampleStore defaultConfigurationRef = defaultConfiguration sampleExternals sampleUuid"
    by (simp add: sampleStore_def classLoad_def)
  have hdr: "hdrAuthCodeNonce sampleExternals = ''AuthCodeNonce''"
    by (simp add: sampleExternals_def)
  have tk: "take 8 sampleUuid = ''123e4567''"
    by (simp add: sampleUuid_def)
  from C8_nonce_seeded_from_static_default_unless_supplied[where X = sampleExternals
      and oc = sampleOmnichannelConfiguration and arg = Undefined and uuid = sampleUuid
      and h = sampleStore and hc = sampleStore and sdk = sampleSDK
      and token = "Some ''jwt''" and rid = "''r1''" and rc = None]
    sample_constructor d
  have one: "readAuthCodeNonce sampleSDK sampleStore = Some ''123e4567''
   \<and> getChatToken_requestHeaders sampleExternals sampleSDK sampleStore ''r1'' sampleParams
       ''AuthCodeNonce'' = Some ''123e4567''"
    by (auto simp: hdr tk sampleParams_def)
  obtain hc sdk where c: "SDK_constructor sampleExternals sampleOmnichannelConfiguration
      (ObjectAt 1) (sampleStore(1 := callerConfiguration)) = (hc, Inr sdk)"
    using caller_constructor by blast
  have sup: "suppliedNonce (sampleStore(1 := callerConfiguration)) (ObjectAt 1) =
               Some ''callerNonce''"
    by (simp add: callerConfiguration_def)
  from C8_nonce_seeded_from_static_default_unless_supplied[OF c, where token = "Some ''jwt''"
      and rid = "''r1''" and rc = None] sup
  have "readAuthCodeNonce sdk hc = Some ''callerNonce'' \<and>
        getChatToken_requestHeaders sampleExternals sdk hc ''r1'' sampleParams
          ''AuthCodeNonce'' = Some ''callerNonce''"
    by (auto simp: hdr sampleParams_def)
  with c one show ?thesis by blast
qed

text \<open>The claim as stated (every instance is seeded with the 8-character random token)
  fails in two ways: an instance whose configuration object supplies \<open>authCodeNonce\<close>
  keeps the caller's value, and an instance constructed after a nonce was committed
  through another instance that shares the static default starts with the committed
  nonce.\<close>

theorem C8_counterexample:
  "nonceAfterConstruction sampleExternals sampleOmnichannelConfiguration (ObjectAt 1)
     (sampleStore(1 := callerConfiguration)) = Some (Some ''callerNonce'')
   \<and> nonceAfterConstruction sampleExternals otherOmnichannelConfiguration Undefined
       (setAuthCodeNonce sampleSDK (Some [''authcodenonce'' \<mapsto> ''n2'']) sampleStore) =
     Some (Some ''n2'')
   \<and> substring sampleUuid 0 8 = ''123e4567''"
proof -
  have a: "nonceAfterConstruction sampleExternals sampleOmnichannelConfiguration (ObjectAt 1)
     (sampleStore(1 := callerConfiguration)) = Some (Some ''callerNonce'')"
    by (simp add: nonceAfterConstruction_def SDK_constructor_def chooseConfiguration_def Let_def
      callerConfiguration_def emptyConfiguration_def noKeys_def sampleStore_def classLoad_def
      defaultConfigurationRef_def defaultConfiguration_def fillMissingKeys_def
      sampleOmnichannelConfiguration_def sampleExternals_def readAuthCodeNonce_def)
  have b: "nonceAfterConstruction sampleExternals otherOmnichannelConfiguration Undefined
       (setAuthCodeNonce sampleSDK (Some [''authcodenonce'' \<mapsto> ''n2'']) sampleStore) =
     Some (Some ''n2'')"
    by (simp add: nonceAfterConstruction_def SDK_constructor_def chooseConfiguration_def Let_def
      setAuthCodeNonce_def sampleSDK_def sampleStore_def classLoad_def
      defaultConfigurationRef_def defaultConfiguration_def fillMissingKeys_def
      otherOmnichannelConfiguration_def sampleExternals_def readAuthCodeNonce_def)
  have c: "substring sampleUuid 0 8 = ''123e4567''"
    by (simp add: substring_def sampleUuid_def)
  from a b c show ?thesis by blast
qed



end
